theory Spec2Isabelle
  imports Complex_Main "HOL-Library.Word"
begin

section \<open>Python values and exceptions\<close>

text \<open>
  The exporter is Python. An exception is a value: its class, the text that
  \<^verbatim>\<open>str(e)\<close> gives, and the traceback it carries when it is caught (one entry per
  stack frame: file name, line number, function name and statement text, as
  \<^verbatim>\<open>traceback.extract_tb\<close> returns them).
\<close>

datatype exc_class =
    AssertionError
  | CalledProcessError
  | ValueError
  | OverflowError
  | OSError
  | OtherError string

record tb_frame =
  tb_filename :: string
  tb_line :: int
  tb_func :: string
  tb_text :: string

record pyexc =
  exc_cls :: exc_class
  exc_str :: string
  exc_tb :: "tb_frame list"

text \<open>
  A Python float is an IEEE double. The canonicaliser looks at a float only through
  \<^verbatim>\<open>int(obj)\<close> and \<^verbatim>\<open>int(obj) == obj\<close>, which depend on the numeric value alone, so
  a finite float is represented by its exact value (every finite double is a rational
  number; \<^verbatim>\<open>-0.0\<close> and \<^verbatim>\<open>0.0\<close> have the same value) and the three values
  without a numeric value are constructors of their own.
\<close>

datatype pyfloat = Finite rat | PosInf | NegInf | NaN

text \<open>
  The document tree that \<^verbatim>\<open>exporter.glTF.to_dict()\<close> returns: \<^verbatim>\<open>None\<close>, booleans,
  integers, floats, strings, lists and dicts with string keys. A dict keeps its
  insertion order, so it is an association list; a Python dict holds each key once
  (\<open>distinct (map fst kvs)\<close>).
\<close>

datatype json =
    JNull
  | JBool bool
  | JInt int
  | JFloat pyfloat
  | JStr string
  | JList "json list"
  | JDict "(string \<times> json) list"

text \<open>\<^verbatim>\<open>fixed[key] = v\<close>: an existing key keeps its position, a new key goes last.\<close>

fun dict_set :: "(string \<times> json) list \<Rightarrow> string \<Rightarrow> json \<Rightarrow> (string \<times> json) list" where
  "dict_set [] key v = [(key, v)]"
| "dict_set ((k, x) # rest) key v =
     (if k = key then (k, v) # rest else (k, x) # dict_set rest key v)"

text \<open>
  \<^verbatim>\<open>int(obj)\<close> on a float truncates towards zero; it raises \<^verbatim>\<open>ValueError\<close> on a NaN
  and \<^verbatim>\<open>OverflowError\<close> on an infinity.
\<close>

definition int_trunc :: "rat \<Rightarrow> int" where
  "int_trunc r = (if r < 0 then \<lceil>r\<rceil> else \<lfloor>r\<rfloor>)"

fun int_of_float :: "pyfloat \<Rightarrow> exc_class + int" where
  "int_of_float (Finite r) = Inr (int_trunc r)"
| "int_of_float NaN = Inl ValueError"
| "int_of_float PosInf = Inl OverflowError"
| "int_of_float NegInf = Inl OverflowError"

text \<open>\<^verbatim>\<open>n == obj\<close> between an int and a float compares the exact values.\<close>

fun int_eq_float :: "int \<Rightarrow> pyfloat \<Rightarrow> bool" where
  "int_eq_float n (Finite r) = (of_int n = r)"
| "int_eq_float n PosInf = False"
| "int_eq_float n NegInf = False"
| "int_eq_float n NaN = False"

section \<open>The JSON canonicaliser\<close>

text \<open>
  \<^verbatim>\<open>
  def __is_empty_collection(value):
      return (isinstance(value, dict) or isinstance(value, list)) and len(value) == 0
  \<close>
\<close>

fun is_empty_collection :: "json \<Rightarrow> bool" where
  "is_empty_collection (JDict kvs) = (length kvs = 0)"
| "is_empty_collection (JList vs) = (length vs = 0)"
| "is_empty_collection JNull = False"
| "is_empty_collection (JBool b) = False"
| "is_empty_collection (JInt n) = False"
| "is_empty_collection (JFloat f) = False"
| "is_empty_collection (JStr s) = False"

text \<open>
  \<^verbatim>\<open>
  def __should_include_json_value(key, value):
      allowed_empty_collections = ["KHR_materials_unlit"]
      if value is None:
          return False
      elif __is_empty_collection(value) and key not in allowed_empty_collections:
          return False
      return True
  \<close>
\<close>

definition allowed_empty_collections :: "string list" where
  "allowed_empty_collections = [''KHR_materials_unlit'']"

definition should_include_json_value :: "string \<Rightarrow> json \<Rightarrow> bool" where
  "should_include_json_value key v =
     (if v = JNull then False
      else if is_empty_collection v \<and> key \<notin> set allowed_empty_collections then False
      else True)"

text \<open>
  \<^verbatim>\<open>
  def __fix_json(obj):
      fixed = obj
      if isinstance(obj, dict):
          fixed = {}
          for key, value in obj.items():
              if key == 'extras' and value is not None:
                  fixed[key] = value
                  continue
              if not __should_include_json_value(key, value):
                  continue
              fixed[key] = __fix_json(value)
      elif isinstance(obj, list):
          fixed = []
          for value in obj:
              fixed.append(__fix_json(value))
      elif isinstance(obj, float):
          if int(obj) == obj:
              return int(obj)
      return fixed
  \<close>
  The two loops are \<open>fix_dict\<close> and \<open>fix_list\<close>; their second argument is the
  variable \<^verbatim>\<open>fixed\<close>. An exception raised by \<^verbatim>\<open>int(obj)\<close> leaves every loop at once.
  A bool is not a float (\<^verbatim>\<open>isinstance(True, float)\<close> is false) and an int is not one
  either, so both are returned as they are.
\<close>

fun fix_json :: "json \<Rightarrow> exc_class + json"
and fix_dict ::
  "(string \<times> json) list \<Rightarrow> (string \<times> json) list \<Rightarrow> exc_class + (string \<times> json) list"
and fix_list :: "json list \<Rightarrow> json list \<Rightarrow> exc_class + json list"
where
  "fix_json (JDict kvs) =
     (case fix_dict kvs [] of Inl e \<Rightarrow> Inl e | Inr fixed \<Rightarrow> Inr (JDict fixed))"
| "fix_json (JList vs) =
     (case fix_list vs [] of Inl e \<Rightarrow> Inl e | Inr fixed \<Rightarrow> Inr (JList fixed))"
| "fix_json (JFloat f) =
     (case int_of_float f of
        Inl e \<Rightarrow> Inl e
      | Inr n \<Rightarrow> if int_eq_float n f then Inr (JInt n) else Inr (JFloat f))"
| "fix_json JNull = Inr JNull"
| "fix_json (JBool b) = Inr (JBool b)"
| "fix_json (JInt n) = Inr (JInt n)"
| "fix_json (JStr s) = Inr (JStr s)"
| "fix_dict [] fixed = Inr fixed"
| "fix_dict ((key, v) # rest) fixed =
     (if key = ''extras'' \<and> v \<noteq> JNull then fix_dict rest (dict_set fixed key v)
      else if \<not> should_include_json_value key v then fix_dict rest fixed
      else (case fix_json v of
              Inl e \<Rightarrow> Inl e
            | Inr v' \<Rightarrow> fix_dict rest (dict_set fixed key v')))"
| "fix_list [] fixed = Inr fixed"
| "fix_list (v # rest) fixed =
     (case fix_json v of Inl e \<Rightarrow> Inl e | Inr v' \<Rightarrow> fix_list rest (fixed @ [v']))"

section \<open>Notions used to state properties of the canonicaliser\<close>

text \<open>A Python dict holds each key once: every dict of the tree has distinct keys.\<close>

fun well_formed :: "json \<Rightarrow> bool"
and well_formed_items :: "(string \<times> json) list \<Rightarrow> bool"
and well_formed_list :: "json list \<Rightarrow> bool"
where
  "well_formed (JDict kvs) = (distinct (map fst kvs) \<and> well_formed_items kvs)"
| "well_formed (JList vs) = well_formed_list vs"
| "well_formed JNull = True"
| "well_formed (JBool b) = True"
| "well_formed (JInt n) = True"
| "well_formed (JFloat f) = True"
| "well_formed (JStr s) = True"
| "well_formed_items [] = True"
| "well_formed_items ((key, v) # rest) = (well_formed v \<and> well_formed_items rest)"
| "well_formed_list [] = True"
| "well_formed_list (v # rest) = (well_formed v \<and> well_formed_list rest)"

text \<open>
  A position in the tree: \<^verbatim>\<open>obj[key]\<close> on a dict and \<^verbatim>\<open>obj[i]\<close> on a list, step by
  step; \<open>None\<close> where the key or index is absent.
\<close>

datatype step = Key string | Index nat

fun at_path :: "json \<Rightarrow> step list \<Rightarrow> json option" where
  "at_path v [] = Some v"
| "at_path (JDict kvs) (Key k # p) =
     (case map_of kvs k of None \<Rightarrow> None | Some v \<Rightarrow> at_path v p)"
| "at_path (JList vs) (Index i # p) =
     (if i < length vs then at_path (vs ! i) p else None)"
| "at_path v (s # p) = None"

text \<open>Every float of the tree is finite, wherever it is.\<close>

fun all_floats_finite :: "json \<Rightarrow> bool"
and all_floats_finite_items :: "(string \<times> json) list \<Rightarrow> bool"
and all_floats_finite_list :: "json list \<Rightarrow> bool"
where
  "all_floats_finite (JFloat f) = (case f of Finite r \<Rightarrow> True | _ \<Rightarrow> False)"
| "all_floats_finite (JDict kvs) = all_floats_finite_items kvs"
| "all_floats_finite (JList vs) = all_floats_finite_list vs"
| "all_floats_finite JNull = True"
| "all_floats_finite (JBool b) = True"
| "all_floats_finite (JInt n) = True"
| "all_floats_finite (JStr s) = True"
| "all_floats_finite_items [] = True"
| "all_floats_finite_items ((key, v) # rest) =
     (all_floats_finite v \<and> all_floats_finite_items rest)"
| "all_floats_finite_list [] = True"
| "all_floats_finite_list (v # rest) = (all_floats_finite v \<and> all_floats_finite_list rest)"

text \<open>
  Every float is finite, except that the value of an \<^verbatim>\<open>extras\<close> key that is not
  \<^verbatim>\<open>None\<close> is not looked into.
\<close>

fun reached_floats_finite :: "json \<Rightarrow> bool"
and reached_floats_finite_items :: "(string \<times> json) list \<Rightarrow> bool"
and reached_floats_finite_list :: "json list \<Rightarrow> bool"
where
  "reached_floats_finite (JFloat f) = (case f of Finite r \<Rightarrow> True | _ \<Rightarrow> False)"
| "reached_floats_finite (JDict kvs) = reached_floats_finite_items kvs"
| "reached_floats_finite (JList vs) = reached_floats_finite_list vs"
| "reached_floats_finite JNull = True"
| "reached_floats_finite (JBool b) = True"
| "reached_floats_finite (JInt n) = True"
| "reached_floats_finite (JStr s) = True"
| "reached_floats_finite_items [] = True"
| "reached_floats_finite_items ((key, v) # rest) =
     (((key = ''extras'' \<and> v \<noteq> JNull) \<or> reached_floats_finite v)
      \<and> reached_floats_finite_items rest)"
| "reached_floats_finite_list [] = True"
| "reached_floats_finite_list (v # rest) =
     (reached_floats_finite v \<and> reached_floats_finite_list rest)"

text \<open>
  What every result of the pass satisfies outside the values of \<^verbatim>\<open>extras\<close> keys: dicts
  have distinct keys and no \<^verbatim>\<open>None\<close> value, and a float that is left is finite and
  not integral.
\<close>

fun tidy :: "json \<Rightarrow> bool"
and tidy_items :: "(string \<times> json) list \<Rightarrow> bool"
and tidy_list :: "json list \<Rightarrow> bool"
where
  "tidy (JFloat f) =
     (case int_of_float f of Inl e \<Rightarrow> False | Inr n \<Rightarrow> \<not> int_eq_float n f)"
| "tidy (JDict kvs) = (distinct (map fst kvs) \<and> tidy_items kvs)"
| "tidy (JList vs) = tidy_list vs"
| "tidy JNull = True"
| "tidy (JBool b) = True"
| "tidy (JInt n) = True"
| "tidy (JStr s) = True"
| "tidy_items [] = True"
| "tidy_items ((key, v) # rest) =
     (v \<noteq> JNull \<and> (key = ''extras'' \<or> tidy v) \<and> tidy_items rest)"
| "tidy_list [] = True"
| "tidy_list (v # rest) = (tidy v \<and> tidy_list rest)"


text \<open>
  The loop over a dict with distinct keys, described entry by entry: an entry is kept
  or dropped (\<open>keep_entry\<close>), and a kept entry has its value canonicalised, the value
  of \<^verbatim>\<open>extras\<close> apart (\<open>fix_entry\<close>).
\<close>

definition keep_entry :: "string \<times> json \<Rightarrow> bool" where
  "keep_entry kv =
     ((fst kv = ''extras'' \<and> snd kv \<noteq> JNull) \<or> should_include_json_value (fst kv) (snd kv))"

definition fix_entry :: "string \<times> json \<Rightarrow> string \<times> json" where
  "fix_entry kv =
     (fst kv, if fst kv = ''extras'' then snd kv else projr (fix_json (snd kv)))"

section \<open>The host and the collaborators of the export\<close>

text \<open>
  The settings that this file reads from the \<^verbatim>\<open>export_settings\<close> dict, one field per
  key (the two callback lists are with the collaborators below, since a callback acts
  on the state that holds the settings). The integer options are Blender integer
  properties and \<^verbatim>\<open>gltf_gltfpack_si\<close> is a float property.
\<close>

record export_settings =
  gltf_current_frame :: bool
  gltf_format :: string
  gltf_filedirectory :: string
  gltf_binaryfilename :: string
  gltf_filepath :: string
  gltf_draco_mesh_compression :: bool
  gltf_use_gltfpack :: bool
  gltf_gltfpack_tc :: bool
  gltf_gltfpack_tq :: int
  gltf_gltfpack_si :: pyfloat
  gltf_gltfpack_sa :: bool
  gltf_gltfpack_slb :: bool
  gltf_gltfpack_vp :: int
  gltf_gltfpack_vt :: int
  gltf_gltfpack_vn :: int
  gltf_gltfpack_vc :: int
  gltf_gltfpack_vpi :: string
  gltf_gltfpack_noq :: bool

text \<open>
  Calls into the console, the traceback printer and the progress bar are recorded in
  the order they are made.
\<close>

datatype call =
    Print_console string string
  | Print_newline
  | Print_tb "tb_frame list"
  | Progress_begin int int
  | Progress_update int
  | Progress_end

text \<open>
  Everything the export can read or change: the timeline position
  (\<^verbatim>\<open>bpy.context.scene.frame_current\<close>), the mode of the active object (\<open>None\<close>
  when there is no active object), the settings dict (callbacks get it and may change
  it), the add-on preference \<^verbatim>\<open>gltfpack_path_ui\<close>, the recorded calls, and the rest
  of the host (scene data, the exporter object, the file system).
\<close>

record 'x world =
  frame_current :: int
  active_object_mode :: "string option"
  settings :: export_settings
  gltfpack_path_ui :: string
  calls :: "call list"
  other :: 'x

text \<open>
  An operation runs in a state, returns a value or raises, and leaves a state behind
  in both cases.
\<close>

type_synonym ('x, 'r) op = "'x world \<Rightarrow> (pyexc + 'r) \<times> 'x world"

type_synonym bytes = "8 word list"

text \<open>
  \<^verbatim>\<open>subprocess.run\<close> either starts the program, which then exits with a return code,
  or fails to start it (the binary is missing or not executable) and raises.
\<close>

datatype process_outcome = Exited int | Launch_failed pyexc

text \<open>
  Code outside this file, taken as parameters: Blender operators, the gatherer, the
  methods of the one \<^verbatim>\<open>GlTF2Exporter\<close> object, the user extension hooks, the writer
  \<^verbatim>\<open>save_gltf\<close>, and what is used of \<^verbatim>\<open>os\<close>, \<^verbatim>\<open>subprocess\<close>, \<^verbatim>\<open>time\<close> and float
  formatting. Scenes, animations and skins are opaque objects \<open>'o\<close>. A collaborator
  that is handed a list it may change in place returns the list as it is afterwards.
\<close>

record ('x, 'o) collaborators =
  mode_set :: "('x, unit) op"
  time_time :: "'x world \<Rightarrow> pyfloat"
  float_sub :: "pyfloat \<Rightarrow> pyfloat \<Rightarrow> pyfloat"
  format_float :: "pyfloat \<Rightarrow> string"
  pre_export_callbacks :: "('x, unit) op list"
  post_export_callbacks :: "('x, unit) op list"
  new_exporter :: "('x, unit) op"
  gather_gltf2 :: "('x, int \<times> 'o list \<times> 'o list) op"
  get_unused_skins :: "('x, 'o) op"
  encode_scene_primitives :: "'o list \<Rightarrow> ('x, 'o list) op"
  add_draco_extension :: "('x, unit) op"
  gather_gltf_hook :: "int \<Rightarrow> 'o list \<Rightarrow> 'o list \<Rightarrow> ('x, 'o list \<times> 'o list) op"
  add_scene :: "'o \<Rightarrow> bool \<Rightarrow> ('x, unit) op"
  add_animation :: "'o \<Rightarrow> ('x, unit) op"
  traverse_unused_skins :: "'o \<Rightarrow> ('x, unit) op"
  finalize_buffer :: "string \<Rightarrow> string option \<Rightarrow> bool \<Rightarrow> ('x, bytes) op"
  finalize_images :: "('x, unit) op"
  gather_gltf_extensions_hook :: "('x, unit) op"
  traverse_extensions :: "('x, unit) op"
  to_dict :: "('x, json) op"
  save_gltf :: "json \<Rightarrow> bytes \<Rightarrow> ('x, unit) op"
  path_join :: "string \<Rightarrow> string \<Rightarrow> string"
  path_basename :: "string \<Rightarrow> string"
  path_dirname :: "string \<Rightarrow> string"
  path_splitext :: "string \<Rightarrow> string \<times> string"
  path_exists :: "string \<Rightarrow> 'x world \<Rightarrow> bool"
  makedirs :: "string \<Rightarrow> ('x, unit) op"
  run_process :: "string list \<Rightarrow> 'x world \<Rightarrow> process_outcome \<times> 'x world"

subsection \<open>Sequencing\<close>

definition returns :: "'r \<Rightarrow> ('x, 'r) op" where
  "returns v w = (Inr v, w)"

definition raise :: "pyexc \<Rightarrow> ('x, 'r) op" where
  "raise e w = (Inl e, w)"

text \<open>One statement after another: an exception skips what follows.\<close>

definition then_do :: "('x, 'a) op \<Rightarrow> ('a \<Rightarrow> ('x, 'b) op) \<Rightarrow> ('x, 'b) op" where
  "then_do m f w = (case m w of (Inl e, w') \<Rightarrow> (Inl e, w') | (Inr v, w') \<Rightarrow> f v w')"

text \<open>A \<^verbatim>\<open>for\<close> loop over a list.\<close>

fun for_each :: "('a \<Rightarrow> ('x, unit) op) \<Rightarrow> 'a list \<Rightarrow> ('x, unit) op" where
  "for_each f [] w = (Inr (), w)"
| "for_each f (x # xs) w =
     (case f x w of (Inl e, w') \<Rightarrow> (Inl e, w') | (Inr u, w') \<Rightarrow> for_each f xs w')"

definition run_if :: "('x world \<Rightarrow> bool) \<Rightarrow> ('x, unit) op \<Rightarrow> ('x, unit) op" where
  "run_if c m w = (if c w then m w else (Inr (), w))"

definition record_call :: "call \<Rightarrow> ('x, unit) op" where
  "record_call c w = (Inr (), w\<lparr>calls := calls w @ [c]\<rparr>)"

definition print_console :: "string \<Rightarrow> string \<Rightarrow> ('x, unit) op" where
  "print_console level output = record_call (Print_console level output)"

text \<open>\<^verbatim>\<open>bpy.context.scene.frame_set(n)\<close> moves the timeline.\<close>

definition frame_set :: "int \<Rightarrow> ('x, unit) op" where
  "frame_set n w = (Inr (), w\<lparr>frame_current := n\<rparr>)"

subsection \<open>Formatting an integer\<close>

text \<open>\<^verbatim>\<open>'{}'.format(n)\<close> and \<^verbatim>\<open>f"{n}"\<close> on an int give its decimal digits.\<close>

definition digit_char :: "nat \<Rightarrow> char" where
  "digit_char d = ''0123456789'' ! d"

function str_nat :: "nat \<Rightarrow> string" where
  "str_nat n = (if n < 10 then [digit_char n] else str_nat (n div 10) @ [digit_char (n mod 10)])"
  by pat_completeness auto
termination
  by (relation "measure id") auto

definition str_int :: "int \<Rightarrow> string" where
  "str_int i = (if i < 0 then CHR ''-'' # str_nat (nat (- i)) else str_nat (nat i))"

text \<open>The exceptions that Python itself raises in this file.\<close>

definition builtin_error :: "exc_class \<Rightarrow> pyexc" where
  "builtin_error c =
     \<lparr>exc_cls = c,
      exc_str = (if c = ValueError then ''cannot convert float NaN to integer''
                 else ''cannot convert float infinity to integer''),
      exc_tb = []\<rparr>"

text \<open>
  \<^verbatim>\<open>subprocess.run(args, check=True)\<close>: a return code other than 0 raises
  \<^verbatim>\<open>CalledProcessError\<close> (whose text in Python also names the command; the handler
  below does not read it), a launch failure raises what the operating system reports.
\<close>

definition called_process_error :: "int \<Rightarrow> pyexc" where
  "called_process_error code =
     \<lparr>exc_cls = CalledProcessError,
      exc_str = ''Command returned non-zero exit status '' @ str_int code,
      exc_tb = []\<rparr>"

definition subprocess_run_check :: "('x, 'o) collaborators \<Rightarrow> string list \<Rightarrow> ('x, unit) op" where
  "subprocess_run_check env args w =
     (case run_process env args w of
        (Exited code, w') \<Rightarrow>
          if code \<noteq> 0 then (Inl (called_process_error code), w') else (Inr (), w')
      | (Launch_failed e, w') \<Rightarrow> (Inl e, w'))"

section \<open>The export\<close>

text \<open>
  \<^verbatim>\<open>
  def __notify_start(context):
      print_console('INFO', 'Starting glTF 2.0 export')
      context.window_manager.progress_begin(0, 100)
      context.window_manager.progress_update(0)

  def __notify_end(context, elapsed):
      print_console('INFO', 'Finished glTF 2.0 export in {} s'.format(elapsed))
      context.window_manager.progress_end()
      print_newline()
  \<close>
\<close>

definition notify_start :: "('x, unit) op" where
  "notify_start =
     then_do (print_console ''INFO'' ''Starting glTF 2.0 export'') (\<lambda>u.
     then_do (record_call (Progress_begin 0 100)) (\<lambda>u.
     record_call (Progress_update 0)))"

definition notify_end :: "('x, 'o) collaborators \<Rightarrow> pyfloat \<Rightarrow> ('x, unit) op" where
  "notify_end env elapsed =
     then_do (print_console ''INFO''
                (''Finished glTF 2.0 export in '' @ format_float env elapsed @ '' s'')) (\<lambda>u.
     then_do (record_call Progress_end) (\<lambda>u.
     record_call Print_newline))"

text \<open>
  \<^verbatim>\<open>
  def __gather_gltf(exporter, export_settings):
      active_scene_idx, scenes, animations = gltf2_blender_gather.gather_gltf2(export_settings)
      unused_skins = export_settings['vtree'].get_unused_skins()
      if export_settings['gltf_draco_mesh_compression']:
          gltf2_io_draco_compression_extension.encode_scene_primitives(scenes, export_settings)
          exporter.add_draco_extension()
      export_user_extensions('gather_gltf_hook', export_settings, active_scene_idx, scenes, animations)
      for idx, scene in enumerate(scenes):
          exporter.add_scene(scene, idx==active_scene_idx)
      for animation in animations:
          exporter.add_animation(animation)
      exporter.traverse_unused_skins(unused_skins)
  \<close>
\<close>

definition gather_gltf :: "('x, 'o) collaborators \<Rightarrow> ('x, unit) op" where
  "gather_gltf env =
     then_do (gather_gltf2 env) (\<lambda>(active_scene_idx, scenes, animations).
     then_do (get_unused_skins env) (\<lambda>unused_skins.
     then_do (\<lambda>w. if gltf_draco_mesh_compression (settings w)
                   then then_do (encode_scene_primitives env scenes) (\<lambda>scenes'.
                        then_do (add_draco_extension env) (\<lambda>u. returns scenes')) w
                   else returns scenes w) (\<lambda>scenes.
     then_do (gather_gltf_hook env active_scene_idx scenes animations) (\<lambda>(scenes, animations).
     then_do (for_each (\<lambda>(idx, scene). add_scene env scene (int idx = active_scene_idx))
                (enumerate 0 scenes)) (\<lambda>u.
     then_do (for_each (\<lambda>animation. add_animation env animation) animations) (\<lambda>u.
     traverse_unused_skins env unused_skins))))))"

text \<open>
  \<^verbatim>\<open>
  def __create_buffer(exporter, export_settings):
      buffer = bytes()
      if export_settings['gltf_format'] == 'GLB':
          buffer = exporter.finalize_buffer(export_settings['gltf_filedirectory'], is_glb=True)
      else:
          if export_settings['gltf_format'] == 'GLTF_EMBEDDED':
              exporter.finalize_buffer(export_settings['gltf_filedirectory'])
          else:
              exporter.finalize_buffer(export_settings['gltf_filedirectory'],
                                       export_settings['gltf_binaryfilename'])
      return buffer
  \<close>
  The method is \<^verbatim>\<open>finalize_buffer(output_path, buffer_name=None, is_glb=False)\<close>.
\<close>

definition create_buffer :: "('x, 'o) collaborators \<Rightarrow> ('x, bytes) op" where
  "create_buffer env w =
     (let buffer = [] in
      if gltf_format (settings w) = ''GLB'' then
        then_do (finalize_buffer env (gltf_filedirectory (settings w)) None True)
          (\<lambda>buffer. returns buffer) w
      else if gltf_format (settings w) = ''GLTF_EMBEDDED'' then
        then_do (finalize_buffer env (gltf_filedirectory (settings w)) None False)
          (\<lambda>ignored. returns buffer) w
      else
        then_do (finalize_buffer env (gltf_filedirectory (settings w))
                   (Some (gltf_binaryfilename (settings w))) False)
          (\<lambda>ignored. returns buffer) w)"

text \<open>
  \<^verbatim>\<open>
  def __export(export_settings):
      exporter = GlTF2Exporter(export_settings)
      __gather_gltf(exporter, export_settings)
      buffer = __create_buffer(exporter, export_settings)
      exporter.finalize_images()
      export_user_extensions('gather_gltf_extensions_hook', export_settings, exporter.glTF)
      exporter.traverse_extensions()
      json = __fix_json(exporter.glTF.to_dict())
      return json, buffer
  \<close>
\<close>

definition export :: "('x, 'o) collaborators \<Rightarrow> ('x, json \<times> bytes) op" where
  "export env =
     then_do (new_exporter env) (\<lambda>u.
     then_do (gather_gltf env) (\<lambda>u.
     then_do (create_buffer env) (\<lambda>buffer.
     then_do (finalize_images env) (\<lambda>u.
     then_do (gather_gltf_extensions_hook env) (\<lambda>u.
     then_do (traverse_extensions env) (\<lambda>u.
     then_do (to_dict env) (\<lambda>d.
     then_do (case fix_json d of Inl c \<Rightarrow> raise (builtin_error c) | Inr fixed \<Rightarrow> returns fixed)
       (\<lambda>json.
     returns (json, buffer)))))))))"

section \<open>The gltfpack post-process\<close>

text \<open>
  Lines 162 to 197 of the source: the list \<^verbatim>\<open>options\<close>, one \<^verbatim>\<open>append\<close> after the
  other. A \<^verbatim>\<open>match\<close> with no matching case does nothing.
\<close>

definition gltfpack_options :: "('x, 'o) collaborators \<Rightarrow> export_settings \<Rightarrow> string list" where
  "gltfpack_options env s =
     (let options = [];
          options = (if gltf_gltfpack_tc s then options @ [''-tc''] else options);
          options = options @ [''-tq''];
          options = options @ [str_int (gltf_gltfpack_tq s)];
          options = options @ [''-si''];
          options = options @ [format_float env (gltf_gltfpack_si s)];
          options = (if gltf_gltfpack_sa s then options @ [''-sa''] else options);
          options = (if gltf_gltfpack_slb s then options @ [''-slb''] else options);
          options = options @ [''-vp''];
          options = options @ [str_int (gltf_gltfpack_vp s)];
          options = options @ [''-vt''];
          options = options @ [str_int (gltf_gltfpack_vt s)];
          options = options @ [''-vn''];
          options = options @ [str_int (gltf_gltfpack_vn s)];
          options = options @ [''-vc''];
          options = options @ [str_int (gltf_gltfpack_vc s)];
          options = (if gltf_gltfpack_vpi s = ''Integer'' then options @ [''-vpi'']
                     else if gltf_gltfpack_vpi s = ''Normalized'' then options @ [''-vpn'']
                     else if gltf_gltfpack_vpi s = ''Floating-point'' then options @ [''-vpf'']
                     else options);
          options = (if gltf_gltfpack_noq s then options @ [''-noq''] else options)
      in options)"

text \<open>
  The paths of lines 148 to 160 and the argument list of line 206,
  \<^verbatim>\<open>[gltfpack_binary_file_path] + options + parameters\<close>. The path and the
  preference are read before the output directory is made (state \<open>w\<close>), the options
  after (state \<open>w1\<close>).
\<close>

definition gltf_output_file_directory :: "('x, 'o) collaborators \<Rightarrow> 'x world \<Rightarrow> string" where
  "gltf_output_file_directory env w =
     path_join env (path_dirname env (gltf_filepath (settings w))) ''gltfpacked''"

definition gltfpack_command ::
  "('x, 'o) collaborators \<Rightarrow> 'x world \<Rightarrow> 'x world \<Rightarrow> string list" where
  "gltfpack_command env w w1 =
     (let gltfpack_path = gltfpack_path_ui w;
          gltfpack_binary_file_path = path_join env gltfpack_path ''gltfpack'';
          gltf_file_path = gltf_filepath (settings w);
          gltf_file_base = fst (path_splitext env (path_basename env gltf_file_path));
          gltf_file_extension = snd (path_splitext env (path_basename env gltf_file_path));
          gltf_input_file_path = gltf_file_path;
          gltf_output_file_path =
            path_join env (gltf_output_file_directory env w) (gltf_file_base @ gltf_file_extension);
          options = gltfpack_options env (settings w1);
          parameters = [];
          parameters = parameters @ [''-i''];
          parameters = parameters @ [gltf_input_file_path];
          parameters = parameters @ [''-o''];
          parameters = parameters @ [gltf_output_file_path]
      in [gltfpack_binary_file_path] @ options @ parameters)"

text \<open>
  \<^verbatim>\<open>
      if (os.path.exists(gltf_output_file_directory) is False):
          os.makedirs(gltf_output_file_directory)
      ...
      try:
          subprocess.run([gltfpack_binary_file_path] + options + parameters, check=True)
      except subprocess.CalledProcessError as e:
          print_console('ERROR', "Calling gltfpack was not successful")
  \<close>
\<close>

definition postprocess_with_gltfpack :: "('x, 'o) collaborators \<Rightarrow> ('x, unit) op" where
  "postprocess_with_gltfpack env w =
     then_do (run_if (\<lambda>w'. \<not> path_exists env (gltf_output_file_directory env w) w')
                (makedirs env (gltf_output_file_directory env w))) (\<lambda>u w1.
       case subprocess_run_check env (gltfpack_command env w w1) w1 of
         (Inl e, w2) \<Rightarrow>
           if exc_cls e = CalledProcessError
           then print_console ''ERROR'' ''Calling gltfpack was not successful'' w2
           else (Inl e, w2)
       | (Inr u', w2) \<Rightarrow> (Inr (), w2)) w"

section \<open>Writing the file\<close>

text \<open>
  \<^verbatim>\<open>
  def __write_file(json, buffer, export_settings):
      try:
          gltf2_io_export.save_gltf(json, export_settings,
              gltf2_blender_json.BlenderJSONEncoder, buffer)
          if (export_settings['gltf_use_gltfpack'] == True):
              __postprocess_with_gltfpack(export_settings)
      except AssertionError as e:
          _, _, tb = sys.exc_info()
          traceback.print_tb(tb)  # Fixed format
          tb_info = traceback.extract_tb(tb)
          for tbi in tb_info:
              filename, line, func, text = tbi
              print_console('ERROR', 'An error occurred on line {} in statement {}'.format(line, text))
          print_console('ERROR', str(e))
          raise e
  \<close>
  \<open>write_file_body\<close> is the body of the \<^verbatim>\<open>try\<close>, \<open>report_assertion\<close> the handler.
\<close>

definition write_file_body :: "('x, 'o) collaborators \<Rightarrow> json \<Rightarrow> bytes \<Rightarrow> ('x, unit) op" where
  "write_file_body env json buffer =
     then_do (save_gltf env json buffer) (\<lambda>u.
     run_if (\<lambda>w. gltf_use_gltfpack (settings w) = True) (postprocess_with_gltfpack env))"

definition report_assertion :: "pyexc \<Rightarrow> ('x, unit) op" where
  "report_assertion e =
     then_do (record_call (Print_tb (exc_tb e))) (\<lambda>u.
     then_do (for_each (\<lambda>tbi. print_console ''ERROR''
                (''An error occurred on line '' @ str_int (tb_line tbi) @ '' in statement ''
                 @ tb_text tbi)) (exc_tb e)) (\<lambda>u.
     then_do (print_console ''ERROR'' (exc_str e)) (\<lambda>u.
     raise e)))"

definition write_file :: "('x, 'o) collaborators \<Rightarrow> json \<Rightarrow> bytes \<Rightarrow> ('x, unit) op" where
  "write_file env json buffer w =
     (case write_file_body env json buffer w of
        (Inl e, w') \<Rightarrow>
          if exc_cls e = AssertionError then report_assertion e w' else (Inl e, w')
      | (Inr u, w') \<Rightarrow> (Inr (), w'))"

section \<open>The entry point\<close>

text \<open>
  \<^verbatim>\<open>
  def save(context, export_settings):
      if bpy.context.active_object is not None:
          if bpy.context.active_object.mode != "OBJECT":
              bpy.ops.object.mode_set(mode='OBJECT')
      original_frame = bpy.context.scene.frame_current
      if not export_settings['gltf_current_frame']:
          bpy.context.scene.frame_set(0)
      __notify_start(context)
      start_time = time.time()
      pre_export_callbacks = export_settings["pre_export_callbacks"]
      for callback in pre_export_callbacks:
          callback(export_settings)
      json, buffer = __export(export_settings)
      post_export_callbacks = export_settings["post_export_callbacks"]
      for callback in post_export_callbacks:
          callback(export_settings)
      __write_file(json, buffer, export_settings)
      end_time = time.time()
      __notify_end(context, end_time - start_time)
      if not export_settings['gltf_current_frame']:
          bpy.context.scene.frame_set(int(original_frame))
      return {'FINISHED'}
  \<close>
  \<open>enter_object_mode\<close> is the first statement; \<^verbatim>\<open>frame_current\<close> is an int, so
  \<^verbatim>\<open>int(original_frame)\<close> is \<^verbatim>\<open>original_frame\<close>.
\<close>

definition enter_object_mode :: "('x, 'o) collaborators \<Rightarrow> ('x, unit) op" where
  "enter_object_mode env =
     run_if (\<lambda>w. active_object_mode w \<noteq> None \<and> active_object_mode w \<noteq> Some ''OBJECT'')
       (mode_set env)"

definition save :: "('x, 'o) collaborators \<Rightarrow> ('x, string set) op" where
  "save env =
     then_do (enter_object_mode env) (\<lambda>u.
     then_do (\<lambda>w. returns (frame_current w) w) (\<lambda>original_frame.
     then_do (run_if (\<lambda>w. \<not> gltf_current_frame (settings w)) (frame_set 0)) (\<lambda>u.
     then_do notify_start (\<lambda>u.
     then_do (\<lambda>w. returns (time_time env w) w) (\<lambda>start_time.
     then_do (for_each (\<lambda>callback. callback) (pre_export_callbacks env)) (\<lambda>u.
     then_do (export env) (\<lambda>(json, buffer).
     then_do (for_each (\<lambda>callback. callback) (post_export_callbacks env)) (\<lambda>u.
     then_do (write_file env json buffer) (\<lambda>u.
     then_do (\<lambda>w. returns (time_time env w) w) (\<lambda>end_time.
     then_do (notify_end env (float_sub env end_time start_time)) (\<lambda>u.
     then_do (run_if (\<lambda>w. \<not> gltf_current_frame (settings w)) (frame_set original_frame)) (\<lambda>u.
     returns {''FINISHED''}))))))))))))"

section \<open>Two passes, and concrete runs\<close>


text \<open>
  A host in which every collaborator returns at once and changes nothing, the gatherer
  finds no scene, the document is empty and the tool exits with 0. The path functions
  are those of \<^verbatim>\<open>posixpath\<close> at the one path of \<open>sample_settings\<close>.
\<close>

definition sample_settings :: export_settings where
  "sample_settings =
     \<lparr>gltf_current_frame = False, gltf_format = ''GLB'', gltf_filedirectory = ''/out'',
      gltf_binaryfilename = ''scene.bin'', gltf_filepath = ''/out/scene.glb'',
      gltf_draco_mesh_compression = False, gltf_use_gltfpack = True,
      gltf_gltfpack_tc = True, gltf_gltfpack_tq = 75, gltf_gltfpack_si = Finite 1,
      gltf_gltfpack_sa = False, gltf_gltfpack_slb = False, gltf_gltfpack_vp = 14,
      gltf_gltfpack_vt = 12, gltf_gltfpack_vn = 8, gltf_gltfpack_vc = 8,
      gltf_gltfpack_vpi = ''Integer'', gltf_gltfpack_noq = False\<rparr>"

definition sample_world :: "unit world" where
  "sample_world =
     \<lparr>frame_current = 7, active_object_mode = None, settings = sample_settings,
      gltfpack_path_ui = ''/opt'', calls = [], other = ()\<rparr>"

definition quiet_host :: "(unit, unit) collaborators" where
  "quiet_host =
     \<lparr>mode_set = returns (),
      time_time = (\<lambda>w. Finite 0),
      float_sub = (\<lambda>a b. Finite 0),
      format_float = (\<lambda>f. ''1.0''),
      pre_export_callbacks = [],
      post_export_callbacks = [],
      new_exporter = returns (),
      gather_gltf2 = returns (0, [], []),
      get_unused_skins = returns (),
      encode_scene_primitives = (\<lambda>scenes. returns scenes),
      add_draco_extension = returns (),
      gather_gltf_hook = (\<lambda>idx scenes animations. returns (scenes, animations)),
      add_scene = (\<lambda>scene active. returns ()),
      add_animation = (\<lambda>animation. returns ()),
      traverse_unused_skins = (\<lambda>skins. returns ()),
      finalize_buffer = (\<lambda>output_path buffer_name is_glb. returns [1, 2, 3, 4]),
      finalize_images = returns (),
      gather_gltf_extensions_hook = returns (),
      traverse_extensions = returns (),
      to_dict = returns (JDict []),
      save_gltf = (\<lambda>json buffer. returns ()),
      path_join = (\<lambda>a b. a @ ''/'' @ b),
      path_basename = (\<lambda>p. ''scene.glb''),
      path_dirname = (\<lambda>p. ''/out''),
      path_splitext = (\<lambda>p. (''scene'', ''.glb'')),
      path_exists = (\<lambda>p w. True),
      makedirs = (\<lambda>p. returns ()),
      run_process = (\<lambda>args w. (Exited 0, w))\<rparr>"

text \<open>A callback that raises, one that moves the timeline, and a missing binary.\<close>

definition callback_error :: pyexc where
  "callback_error =
     \<lparr>exc_cls = OtherError ''RuntimeError'', exc_str = ''callback failed'', exc_tb = []\<rparr>"

definition failing_callback_host :: "(unit, unit) collaborators" where
  "failing_callback_host = quiet_host\<lparr>pre_export_callbacks := [raise callback_error]\<rparr>"

definition moving_callback_host :: "(unit, unit) collaborators" where
  "moving_callback_host = quiet_host\<lparr>pre_export_callbacks := [frame_set 3]\<rparr>"

text \<open>A callback that sets \<^verbatim>\<open>export_settings['gltf_current_frame'] = True\<close>.\<close>

definition flipping_callback_host :: "(unit, unit) collaborators" where
  "flipping_callback_host =
     quiet_host\<lparr>pre_export_callbacks :=
       [\<lambda>w. (Inr (), w\<lparr>settings := (settings w)\<lparr>gltf_current_frame := True\<rparr>\<rparr>)]\<rparr>"

definition missing_binary_error :: pyexc where
  "missing_binary_error =
     \<lparr>exc_cls = OSError, exc_str = ''[Errno 2] No such file or directory'', exc_tb = []\<rparr>"

definition missing_binary_host :: "(unit, unit) collaborators" where
  "missing_binary_host =
     quiet_host\<lparr>run_process := (\<lambda>args w. (Launch_failed missing_binary_error, w))\<rparr>"

definition failing_tool_host :: "(unit, unit) collaborators" where
  "failing_tool_host = quiet_host\<lparr>run_process := (\<lambda>args w. (Exited 1, w))\<rparr>"

text \<open>An assertion failure and a storage failure in the writer.\<close>

definition assertion_error :: pyexc where
  "assertion_error =
     \<lparr>exc_cls = AssertionError, exc_str = ''bad chunk'',
      exc_tb = [\<lparr>tb_filename = ''gltf2_io_export.py'', tb_line = 42,
                 tb_func = ''save_gltf'', tb_text = ''assert ok''\<rparr>]\<rparr>"

definition storage_error :: pyexc where
  "storage_error = \<lparr>exc_cls = OSError, exc_str = ''disk full'', exc_tb = []\<rparr>"

definition failing_assertion_host :: "(unit, unit) collaborators" where
  "failing_assertion_host = quiet_host\<lparr>save_gltf := (\<lambda>json buffer. raise assertion_error)\<rparr>"

definition failing_storage_host :: "(unit, unit) collaborators" where
  "failing_storage_host = quiet_host\<lparr>save_gltf := (\<lambda>json buffer. raise storage_error)\<rparr>"

text \<open>The calls that the handler of \<^verbatim>\<open>AssertionError\<close> makes, in order.\<close>

definition assertion_report :: "pyexc \<Rightarrow> call list" where
  "assertion_report e =
     Print_tb (exc_tb e)
     # map (\<lambda>tbi. Print_console ''ERROR''
              (''An error occurred on line '' @ str_int (tb_line tbi) @ '' in statement ''
               @ tb_text tbi)) (exc_tb e)
     @ [Print_console ''ERROR'' (exc_str e)]"

section \<open>Properties of the canonicaliser\<close>

subsection \<open>Assignment to a dict\<close>


lemma dict_set_fresh: "key \<notin> fst ` set fixed \<Longrightarrow> dict_set fixed key v = fixed @ [(key, v)]"
  by (induction fixed) auto

lemma dict_set_keys: "fst ` set (dict_set fixed key v) = insert key (fst ` set fixed)"
  by (induction fixed key v rule: dict_set.induct) auto

lemma dict_set_distinct: "distinct (map fst fixed) \<Longrightarrow> distinct (map fst (dict_set fixed key v))"
proof (induction fixed)
  case Nil
  then show ?case by simp
next
  case (Cons a fixed)
  obtain k x where a: "a = (k, x)" by (cases a)
  from Cons a show ?case
    using dict_set_keys [of fixed key v] by (auto simp: image_iff)
qed

lemma dict_set_tidy:
  "tidy_items fixed \<Longrightarrow> v \<noteq> JNull \<Longrightarrow> key = ''extras'' \<or> tidy v \<Longrightarrow> tidy_items (dict_set fixed key v)"
  by (induction fixed key v rule: dict_set.induct) auto

lemma tidy_list_append: "tidy_list (xs @ ys) = (tidy_list xs \<and> tidy_list ys)"
  by (induction xs) auto

subsection \<open>Results of the pass and its fixed points\<close>

lemma fix_json_not_null: "fix_json v = Inr v' \<Longrightarrow> v \<noteq> JNull \<Longrightarrow> v' \<noteq> JNull"
  by (cases v) (auto split: sum.splits if_splits)

lemma fix_result_tidy:
  "(\<forall>y. fix_json x = Inr y \<longrightarrow> tidy y)"
  "(\<forall>r. fix_dict kvs fixed = Inr r \<longrightarrow> tidy_items fixed \<longrightarrow> distinct (map fst fixed)
      \<longrightarrow> tidy_items r \<and> distinct (map fst r))"
  "(\<forall>r. fix_list vs acc = Inr r \<longrightarrow> tidy_list acc \<longrightarrow> tidy_list r)"
proof (induction x and kvs fixed and vs acc rule: fix_json_fix_dict_fix_list.induct)
  case (1 kvs)
  then show ?case by (auto split: sum.splits)
next
  case (2 vs)
  then show ?case by (auto split: sum.splits)
next
  case (3 f)
  then show ?case by (cases f) (auto split: sum.splits if_splits)
next
  case (9 key v rest fixed)
  show ?case
  proof (intro allI impI)
    fix r
    assume r: "fix_dict ((key, v) # rest) fixed = Inr r"
      and t: "tidy_items fixed" and d: "distinct (map fst fixed)"
    show "tidy_items r \<and> distinct (map fst r)"
    proof (cases "key = ''extras'' \<and> v \<noteq> JNull")
      case True
      with r have r': "fix_dict rest (dict_set fixed key v) = Inr r" by simp
      from True t have "tidy_items (dict_set fixed key v)" by (simp add: dict_set_tidy)
      with "9.IH"(1) [OF True] r' d show ?thesis by (simp add: dict_set_distinct)
    next
      case nx: False
      show ?thesis
      proof (cases "should_include_json_value key v")
        case False
        with nx r have "fix_dict rest fixed = Inr r" by auto
        with "9.IH"(2) [OF nx] False t d show ?thesis by simp
      next
        case True
        with nx r obtain v' where v': "fix_json v = Inr v'"
          and r': "fix_dict rest (dict_set fixed key v') = Inr r"
          by (auto split: sum.splits)
        from True have "v \<noteq> JNull" by (auto simp: should_include_json_value_def)
        with v' have nn: "v' \<noteq> JNull" by (rule fix_json_not_null)
        from "9.IH"(3) [OF nx] True v' have "tidy v'" by simp
        with nn t have "tidy_items (dict_set fixed key v')" by (simp add: dict_set_tidy)
        with "9.IH"(4) [OF nx _ v'] True r' d show ?thesis by (simp add: dict_set_distinct)
      qed
    qed
  qed
next
  case (11 v rest fixed)
  then show ?case by (auto split: sum.splits simp: tidy_list_append)
qed auto





subsection \<open>The loops, entry by entry\<close>

lemma fix_dict_char:
  "fix_dict kvs fixed = Inr r \<Longrightarrow> distinct (map fst fixed @ map fst kvs) \<Longrightarrow>
     r = fixed @ map fix_entry (filter keep_entry kvs)"
proof (induction kvs arbitrary: fixed r)
  case Nil
  then show ?case by simp
next
  case (Cons kv rest)
  obtain key v where kv: "kv = (key, v)" by (cases kv)
  from Cons.prems(2) kv have fresh: "key \<notin> fst ` set fixed"
    by auto
  from Cons.prems(2) kv have d1: "distinct (map fst fixed @ map fst rest)"
    by auto
  from Cons.prems(2) kv have d2: "\<And>x. distinct (map fst (fixed @ [(key, x)]) @ map fst rest)"
    by auto
  show ?case
  proof (cases "key = ''extras'' \<and> v \<noteq> JNull")
    case True
    with Cons.prems(1) kv fresh have "fix_dict rest (fixed @ [(key, v)]) = Inr r"
      by (simp add: dict_set_fresh)
    from Cons.IH [OF this d2] True kv show ?thesis
      by (simp add: keep_entry_def fix_entry_def)
  next
    case nx: False
    show ?thesis
    proof (cases "should_include_json_value key v")
      case False
      with nx Cons.prems(1) kv have "fix_dict rest fixed = Inr r" by auto
      from Cons.IH [OF this d1] False nx kv show ?thesis
        by (auto simp add: keep_entry_def)
    next
      case True
      with nx Cons.prems(1) kv obtain v' where v': "fix_json v = Inr v'"
        and r: "fix_dict rest (dict_set fixed key v') = Inr r"
        by (auto split: sum.splits)
      from r fresh have "fix_dict rest (fixed @ [(key, v')]) = Inr r"
        by (simp add: dict_set_fresh)
      from Cons.IH [OF this d2] True nx kv v' show ?thesis
        by (auto simp add: keep_entry_def fix_entry_def)
    qed
  qed
qed

lemma fix_dict_values_fixed:
  "fix_dict kvs fixed = Inr r \<Longrightarrow> (key, v) \<in> set kvs \<Longrightarrow> key \<noteq> ''extras'' \<Longrightarrow>
     should_include_json_value key v \<Longrightarrow> \<exists>v'. fix_json v = Inr v'"
proof (induction kvs arbitrary: fixed r)
  case Nil
  then show ?case by simp
next
  case (Cons kv rest)
  obtain k x where kv: "kv = (k, x)" by (cases kv)
  show ?case
  proof (cases "(key, v) = kv")
    case True
    with Cons.prems kv show ?thesis by (auto split: sum.splits)
  next
    case False
    with Cons.prems(2) have mem: "(key, v) \<in> set rest" by auto
    from Cons.prems(1) kv obtain fixed' where "fix_dict rest fixed' = Inr r"
      by (auto split: sum.splits if_splits)
    from Cons.IH [OF this mem Cons.prems(3) Cons.prems(4)] show ?thesis .
  qed
qed

lemma fix_list_char:
  "fix_list vs fixed = Inr r \<Longrightarrow>
     r = fixed @ map (\<lambda>v. projr (fix_json v)) vs \<and> (\<forall>v\<in>set vs. \<exists>v'. fix_json v = Inr v')"
proof (induction vs arbitrary: fixed r)
  case Nil
  then show ?case by simp
next
  case (Cons v rest)
  from Cons.prems obtain v' where v': "fix_json v = Inr v'"
    and r: "fix_list rest (fixed @ [v']) = Inr r"
    by (auto split: sum.splits)
  from Cons.IH [OF r] v' show ?case by simp
qed

lemma fix_json_dict_char:
  assumes "distinct (map fst kvs)" and "fix_json (JDict kvs) = Inr y"
  shows "y = JDict (map fix_entry (filter keep_entry kvs))"
proof -
  from assms(2) obtain r where r: "fix_dict kvs [] = Inr r" and y: "y = JDict r"
    by (auto split: sum.splits)
  from fix_dict_char [OF r] assms(1) y show ?thesis by simp
qed

lemma map_of_fixed:
  assumes "distinct (map fst kvs)"
  shows "map_of (map fix_entry (filter keep_entry kvs)) key =
     (case map_of kvs key of
        None \<Rightarrow> None
      | Some v \<Rightarrow> if keep_entry (key, v) then Some (snd (fix_entry (key, v))) else None)"
  using assms
proof (induction kvs)
  case Nil
  then show ?case by simp
next
  case (Cons kv rest)
  obtain k x where kv: "kv = (k, x)" by (cases kv)
  from Cons.prems kv have nk: "map_of rest k = None"
    by (simp add: map_of_eq_None_iff)
  from Cons kv nk show ?case
    by (auto simp: fix_entry_def split: option.splits)
qed

subsection \<open>When the pass returns\<close>

lemma fix_total_iff:
  "(\<exists>y. fix_json x = Inr y) = reached_floats_finite x"
  "\<forall>fixed. (\<exists>r. fix_dict kvs fixed = Inr r) = reached_floats_finite_items kvs"
  "\<forall>acc. (\<exists>r. fix_list vs acc = Inr r) = reached_floats_finite_list vs"
proof (induction x and kvs and vs rule: reached_floats_finite_reached_floats_finite_items_reached_floats_finite_list.induct)
  case (1 f)
  then show ?case by (cases f) auto
next
  case (2 kvs)
  from 2 have "(\<exists>r. fix_dict kvs [] = Inr r) = reached_floats_finite_items kvs" by blast
  then show ?case by (auto split: sum.splits)
next
  case (3 vs)
  from 3 have "(\<exists>r. fix_list vs [] = Inr r) = reached_floats_finite_list vs" by blast
  then show ?case by (auto split: sum.splits)
next
  case (9 key v rest)
  have ih2: "\<And>fixed. (\<exists>r. fix_dict rest fixed = Inr r) = reached_floats_finite_items rest"
    using "9.IH"(2) by blast
  show ?case
  proof (intro allI, cases "key = ''extras'' \<and> v \<noteq> JNull")
    fix fixed
    case True
    with ih2 [of "dict_set fixed key v"]
    show "(\<exists>r. fix_dict ((key, v) # rest) fixed = Inr r) = reached_floats_finite_items ((key, v) # rest)"
      by simp
  next
    fix fixed
    let ?thesis = "(\<exists>r. fix_dict ((key, v) # rest) fixed = Inr r) = reached_floats_finite_items ((key, v) # rest)"
    case nx: False
    show ?thesis
    proof (cases "should_include_json_value key v")
      case False
      then have "reached_floats_finite v"
        by (cases v) (auto simp: should_include_json_value_def split: if_splits)
      with nx False ih2 [of fixed] show ?thesis by auto
    next
      case True
      show ?thesis
      proof (cases "fix_json v")
        case (Inl e)
        with "9.IH"(1) nx True show ?thesis by auto
      next
        case (Inr v')
        with "9.IH"(1) have "reached_floats_finite v" by auto
        with Inr nx True ih2 [of "dict_set fixed key v'"] show ?thesis by auto
      qed
    qed
  qed
next
  case (11 v rest)
  have ih2: "\<And>acc. (\<exists>r. fix_list rest acc = Inr r) = reached_floats_finite_list rest"
    using "11.IH"(2) by blast
  show ?case
  proof (intro allI)
    fix acc
    show "(\<exists>r. fix_list (v # rest) acc = Inr r) = reached_floats_finite_list (v # rest)"
    proof (cases "fix_json v")
      case (Inl e)
      with "11.IH"(1) show ?thesis by auto
    next
      case (Inr v')
      with "11.IH"(1) have "reached_floats_finite v" by auto
      with Inr ih2 [of "acc @ [v']"] show ?thesis by auto
    qed
  qed
qed auto

lemma all_finite_reached:
  "all_floats_finite x \<longrightarrow> reached_floats_finite x"
  "all_floats_finite_items kvs \<longrightarrow> reached_floats_finite_items kvs"
  "all_floats_finite_list vs \<longrightarrow> reached_floats_finite_list vs"
  by (induction x and kvs and vs rule: all_floats_finite_all_floats_finite_items_all_floats_finite_list.induct) auto

lemma fix_error_class:
  "(\<forall>e. fix_json x = Inl e \<longrightarrow> e = ValueError \<or> e = OverflowError)"
  "(\<forall>e. fix_dict kvs fixed = Inl e \<longrightarrow> e = ValueError \<or> e = OverflowError)"
  "(\<forall>e. fix_list vs acc = Inl e \<longrightarrow> e = ValueError \<or> e = OverflowError)"
proof (induction x and kvs fixed and vs acc rule: fix_json_fix_dict_fix_list.induct)
  case (3 f)
  then show ?case by (cases f) (auto split: if_splits)
qed (auto split: sum.splits if_splits)

subsection \<open>Positions in the tree\<close>


lemma well_formed_items_mem:
  "well_formed_items kvs \<Longrightarrow> (key, v) \<in> set kvs \<Longrightarrow> well_formed v"
  by (induction kvs) auto

lemma well_formed_list_mem:
  "well_formed_list vs \<Longrightarrow> v \<in> set vs \<Longrightarrow> well_formed v"
  by (induction vs) auto

lemma at_path_kept_parent:
  assumes "at_path v p = Some s" and "\<not> is_empty_collection s" and "s \<noteq> JNull"
  shows "v \<noteq> JNull \<and> \<not> is_empty_collection v"
proof (cases p)
  case Nil
  with assms show ?thesis by (cases v) auto
next
  case (Cons st p')
  with assms show ?thesis
    by (cases v; cases st) (auto split: option.splits if_splits)
qed

lemma fix_json_at_path:
  "well_formed x \<Longrightarrow> fix_json x = Inr y \<Longrightarrow> at_path x p = Some s \<Longrightarrow>
     \<not> is_empty_collection s \<Longrightarrow> s \<noteq> JNull \<Longrightarrow> Key ''extras'' \<notin> set p \<Longrightarrow>
     \<exists>s'. fix_json s = Inr s' \<and> at_path y p = Some s'"
proof (induction p arbitrary: x y)
  case Nil
  then show ?case by simp
next
  case (Cons st p)
  show ?case
  proof (cases x)
    case (JDict kvs)
    with Cons.prems(3) obtain k v where st: "st = Key k" and mv: "map_of kvs k = Some v"
      and av: "at_path v p = Some s"
      by (cases st) (auto split: option.splits)
    from Cons.prems(6) st have kx: "k \<noteq> ''extras''" and px: "Key ''extras'' \<notin> set p" by auto
    from mv have mem: "(k, v) \<in> set kvs" by (rule map_of_SomeD)
    from Cons.prems(1) JDict have d: "distinct (map fst kvs)" and wi: "well_formed_items kvs"
      by auto
    from wi mem have wv: "well_formed v" by (rule well_formed_items_mem)
    from at_path_kept_parent [OF av Cons.prems(4) Cons.prems(5)]
    have inc: "should_include_json_value k v"
      by (simp add: should_include_json_value_def)
    from Cons.prems(2) JDict obtain r where r: "fix_dict kvs [] = Inr r"
      by (auto split: sum.splits)
    from fix_dict_values_fixed [OF r mem kx inc] obtain v' where v': "fix_json v = Inr v'"
      by blast
    from fix_json_dict_char [OF d] Cons.prems(2) JDict
    have y: "y = JDict (map fix_entry (filter keep_entry kvs))" by simp
    from map_of_fixed [OF d, of k] mv inc kx v'
    have "map_of (map fix_entry (filter keep_entry kvs)) k = Some v'"
      by (simp add: keep_entry_def fix_entry_def)
    with y st have "at_path y (st # p) = at_path v' p" by simp
    with Cons.IH [OF wv v' av Cons.prems(4) Cons.prems(5) px] show ?thesis by simp
  next
    case (JList vs)
    with Cons.prems(3) obtain i where st: "st = Index i" and i: "i < length vs"
      and av: "at_path (vs ! i) p = Some s"
      by (cases st) (auto split: if_splits)
    from Cons.prems(6) have px: "Key ''extras'' \<notin> set p" by auto
    from i have mem: "vs ! i \<in> set vs" by simp
    from Cons.prems(1) JList mem have wv: "well_formed (vs ! i)"
      by (auto intro: well_formed_list_mem)
    from Cons.prems(2) JList obtain r where r: "fix_list vs [] = Inr r" and y: "y = JList r"
      by (auto split: sum.splits)
    from fix_list_char [OF r] have rr: "r = map (\<lambda>v. projr (fix_json v)) vs"
      and ok: "\<forall>v\<in>set vs. \<exists>v'. fix_json v = Inr v'" by auto
    from ok mem obtain v' where v': "fix_json (vs ! i) = Inr v'" by blast
    from rr i v' have "r ! i = v'" by simp
    with y st i rr have "at_path y (st # p) = at_path v' p" by simp
    with Cons.IH [OF wv v' av Cons.prems(4) Cons.prems(5) px] show ?thesis by simp
  qed (use Cons.prems(3) in auto)
qed

lemma well_formed_at_path:
  "well_formed x \<Longrightarrow> at_path x p = Some s \<Longrightarrow> well_formed s"
proof (induction p arbitrary: x)
  case Nil
  then show ?case by simp
next
  case (Cons st p)
  show ?case
  proof (cases x)
    case (JDict kvs)
    with Cons.prems(2) obtain k v where "map_of kvs k = Some v" and av: "at_path v p = Some s"
      by (cases st) (auto split: option.splits)
    then have "(k, v) \<in> set kvs" by (auto dest: map_of_SomeD)
    with Cons.prems(1) JDict have "well_formed v" by (auto intro: well_formed_items_mem)
    from Cons.IH [OF this av] show ?thesis .
  next
    case (JList vs)
    with Cons.prems(2) obtain i where i: "i < length vs" and av: "at_path (vs ! i) p = Some s"
      by (cases st) (auto split: if_splits)
    from i Cons.prems(1) JList have "well_formed (vs ! i)"
      by (auto intro: well_formed_list_mem)
    from Cons.IH [OF this av] show ?thesis .
  qed (use Cons.prems(2) in auto)
qed

lemma at_path_append:
  "at_path x (p @ q) = (case at_path x p of None \<Rightarrow> None | Some v \<Rightarrow> at_path v q)"
proof (induction p arbitrary: x)
  case Nil
  then show ?case by simp
next
  case (Cons st p)
  then show ?case
    by (cases x; cases st) (auto split: option.splits)
qed

lemma int_trunc_integral: "(rat_of_int (int_trunc r) = r) = (r \<in> \<int>)"
  by (auto simp: int_trunc_def Ints_def)


section \<open>Properties of the sequencing and of the console\<close>


lemma then_do_InrE:
  assumes "then_do m f w = (Inr r, w')"
  obtains v w1 where "m w = (Inr v, w1)" and "f v w1 = (Inr r, w')"
  using assms by (auto simp: then_do_def split: prod.splits sum.splits)

lemma print_console_eq:
  "print_console level output w = (Inr (), w\<lparr>calls := calls w @ [Print_console level output]\<rparr>)"
  by (simp add: print_console_def record_call_def)

lemma for_each_print:
  "for_each (\<lambda>x. print_console level (g x)) xs w
     = (Inr (), w\<lparr>calls := calls w @ map (\<lambda>x. Print_console level (g x)) xs\<rparr>)"
  by (induction xs arbitrary: w) (simp_all add: print_console_eq)

lemma report_assertion_eq:
  "report_assertion e w = (Inl e, w\<lparr>calls := calls w @ assertion_report e\<rparr>)"
  by (simp add: report_assertion_def assertion_report_def then_do_def for_each_print
      print_console_eq record_call_def raise_def)

lemma notify_end_eq:
  "notify_end env elapsed w
     = (Inr (), w\<lparr>calls := calls w @
          [Print_console ''INFO'' (''Finished glTF 2.0 export in '' @ format_float env elapsed @ '' s''),
           Progress_end, Print_newline]\<rparr>)"
  by (simp add: notify_end_def then_do_def print_console_eq record_call_def)


text \<open>The definitions that a concrete run unfolds.\<close>

lemmas run_defs =
  save_def export_def gather_gltf_def create_buffer_def write_file_def write_file_body_def
  postprocess_with_gltfpack_def subprocess_run_check_def enter_object_mode_def
  notify_start_def notify_end_def then_do_def returns_def raise_def run_if_def frame_set_def
  print_console_def record_call_def gltf_output_file_directory_def builtin_error_def

lemmas host_defs =
  quiet_host_def sample_world_def sample_settings_def



section \<open>The claims about the canonicaliser\<close>




text \<open>
  C3 (amended). In a dict that the pass is applied to, every key whose value is
  \<^verbatim>\<open>None\<close> is removed, the key \<^verbatim>\<open>extras\<close> included; an \<^verbatim>\<open>extras\<close> key whose
  value is not \<^verbatim>\<open>None\<close> is kept with its value as it is; no value of the result is
  \<^verbatim>\<open>None\<close>.
\<close>

theorem fix_json_drops_null_values:
  assumes "distinct (map fst kvs)" and "fix_json (JDict kvs) = Inr y"
  shows "\<exists>fixed. y = JDict fixed
           \<and> (\<forall>key. map_of kvs key = Some JNull \<longrightarrow> map_of fixed key = None)
           \<and> (\<forall>v. map_of kvs ''extras'' = Some v \<longrightarrow> v \<noteq> JNull
                  \<longrightarrow> map_of fixed ''extras'' = Some v)
           \<and> (\<forall>key. map_of fixed key \<noteq> Some JNull)"
proof -
  let ?fixed = "map fix_entry (filter keep_entry kvs)"
  from fix_json_dict_char [OF assms] have y: "y = JDict ?fixed" .
  have a: "\<forall>key. map_of kvs key = Some JNull \<longrightarrow> map_of ?fixed key = None"
    by (simp add: map_of_fixed [OF assms(1)] keep_entry_def should_include_json_value_def)
  have b: "\<forall>v. map_of kvs ''extras'' = Some v \<longrightarrow> v \<noteq> JNull \<longrightarrow> map_of ?fixed ''extras'' = Some v"
    by (simp add: map_of_fixed [OF assms(1)] keep_entry_def fix_entry_def)
  from y have "tidy (JDict ?fixed)" using fix_result_tidy(1) [of "JDict kvs"] assms(2) by simp
  then have ti: "tidy_items ?fixed" by simp
  have nn: "\<And>items key. tidy_items items \<Longrightarrow> map_of items key \<noteq> Some JNull"
  proof -
    fix items :: "(string \<times> json) list" and key
    show "tidy_items items \<Longrightarrow> map_of items key \<noteq> Some JNull"
      by (induction items) auto
  qed
  from nn [OF ti] have c: "\<forall>key. map_of ?fixed key \<noteq> Some JNull" by simp
  from y a b c show ?thesis by blast
qed

theorem fix_json_drops_null_values_witness:
  "distinct (map fst [(''name'', JNull), (''extras'', JStr ''x''), (''mesh'', JInt 0)])
   \<and> fix_json (JDict [(''name'', JNull), (''extras'', JStr ''x''), (''mesh'', JInt 0)])
       = Inr (JDict [(''extras'', JStr ''x''), (''mesh'', JInt 0)])
   \<and> (\<exists>fixed. JDict [(''extras'', JStr ''x''), (''mesh'', JInt 0)] = JDict fixed
        \<and> map_of fixed ''name'' = None \<and> map_of fixed ''extras'' = Some (JStr ''x''))"
proof -
  have h1: "distinct (map fst [(''name'', JNull), (''extras'', JStr ''x''), (''mesh'', JInt 0)])"
    by simp
  have h2: "fix_json (JDict [(''name'', JNull), (''extras'', JStr ''x''), (''mesh'', JInt 0)])
       = Inr (JDict [(''extras'', JStr ''x''), (''mesh'', JInt 0)])"
    by code_simp
  from fix_json_drops_null_values [OF h1 h2] obtain fixed where
    f: "JDict [(''extras'', JStr ''x''), (''mesh'', JInt 0)] = JDict fixed"
    and n: "\<forall>key. map_of [(''name'', JNull), (''extras'', JStr ''x''), (''mesh'', JInt 0)] key
               = Some JNull \<longrightarrow> map_of fixed key = None"
    and e: "\<forall>v. map_of [(''name'', JNull), (''extras'', JStr ''x''), (''mesh'', JInt 0)] ''extras''
               = Some v \<longrightarrow> v \<noteq> JNull \<longrightarrow> map_of fixed ''extras'' = Some v"
    by blast
  from n have "map_of fixed ''name'' = None" by simp
  moreover from e have "map_of fixed ''extras'' = Some (JStr ''x'')" by simp
  ultimately show ?thesis using h1 h2 f by blast
qed

text \<open>
  The claim C3 as stated fails at its own example: \<^verbatim>\<open>{"name": null, "extras": null}\<close>
  becomes \<^verbatim>\<open>{}\<close>, not \<^verbatim>\<open>{"extras": null}\<close>.
\<close>

theorem fix_json_null_extras_counterexample:
  "fix_json (JDict [(''name'', JNull), (''extras'', JNull)]) = Inr (JDict [])
   \<and> fix_json (JDict [(''name'', JNull), (''extras'', JNull)])
       \<noteq> Inr (JDict [(''extras'', JNull)])"
  by code_simp



text \<open>
  C5 (amended). A finite float at a position of the tree that does not lie under an
  \<^verbatim>\<open>extras\<close> key is replaced by the integer of equal value when its value is
  integral and is left as it is otherwise; a bool, an int or a string at such a
  position is left as it is; and \<^verbatim>\<open>__fix_json\<close> applied to \<^verbatim>\<open>None\<close>, a bool, an
  int or a string returns it.
\<close>

theorem fix_json_scalars:
  assumes "well_formed x" and "fix_json x = Inr y" and "at_path x p = Some s"
    and "Key ''extras'' \<notin> set p"
  shows "(\<forall>r. s = JFloat (Finite r) \<longrightarrow>
            at_path y p = Some (if r \<in> \<int> then JInt \<lfloor>r\<rfloor> else JFloat (Finite r)))
         \<and> ((\<exists>b. s = JBool b) \<or> (\<exists>n. s = JInt n) \<or> (\<exists>t. s = JStr t) \<longrightarrow> at_path y p = Some s)
         \<and> fix_json JNull = Inr JNull \<and> (\<forall>b. fix_json (JBool b) = Inr (JBool b))
         \<and> (\<forall>n. fix_json (JInt n) = Inr (JInt n)) \<and> (\<forall>t. fix_json (JStr t) = Inr (JStr t))"
proof -
  have fl: "at_path y p = Some (if r \<in> \<int> then JInt \<lfloor>r\<rfloor> else JFloat (Finite r))"
    if s: "s = JFloat (Finite r)" for r
  proof -
    from s have sc: "\<not> is_empty_collection s" and nn: "s \<noteq> JNull" by auto
    from fix_json_at_path [OF assms(1) assms(2) assms(3) sc nn assms(4)]
    obtain s' where s': "fix_json s = Inr s'" and y: "at_path y p = Some s'" by blast
    show ?thesis
    proof (cases "r \<in> \<int>")
      case True
      then have "rat_of_int (int_trunc r) = r" by (simp add: int_trunc_integral)
      moreover from True have "int_trunc r = \<lfloor>r\<rfloor>" by (auto simp: int_trunc_def Ints_def)
      ultimately show ?thesis using s s' y True by auto
    next
      case False
      then have "rat_of_int (int_trunc r) \<noteq> r" by (simp add: int_trunc_integral)
      then show ?thesis using s s' y False by auto
    qed
  qed
  have ot: "at_path y p = Some s" if s: "(\<exists>b. s = JBool b) \<or> (\<exists>n. s = JInt n) \<or> (\<exists>t. s = JStr t)"
  proof -
    from s have sc: "\<not> is_empty_collection s" and nn: "s \<noteq> JNull" by auto
    from fix_json_at_path [OF assms(1) assms(2) assms(3) sc nn assms(4)]
    obtain s' where s': "fix_json s = Inr s'" and y: "at_path y p = Some s'" by blast
    from s s' have "s' = s" by auto
    with y show ?thesis by simp
  qed
  from fl ot show ?thesis by simp
qed

theorem fix_json_scalars_witness:
  "well_formed (JDict [(''nodes'', JList [JFloat (Finite 5), JFloat (Finite (11 / 2)), JStr ''n''])])
   \<and> fix_json (JDict [(''nodes'', JList [JFloat (Finite 5), JFloat (Finite (11 / 2)), JStr ''n''])])
       = Inr (JDict [(''nodes'', JList [JInt 5, JFloat (Finite (11 / 2)), JStr ''n''])])
   \<and> at_path (JDict [(''nodes'', JList [JFloat (Finite 5), JFloat (Finite (11 / 2)), JStr ''n''])])
        [Key ''nodes'', Index 0] = Some (JFloat (Finite 5))
   \<and> at_path (JDict [(''nodes'', JList [JInt 5, JFloat (Finite (11 / 2)), JStr ''n''])])
        [Key ''nodes'', Index 0] = Some (JInt 5)"
proof -
  let ?x = "JDict [(''nodes'', JList [JFloat (Finite 5), JFloat (Finite (11 / 2)), JStr ''n''])]"
  let ?y = "JDict [(''nodes'', JList [JInt 5, JFloat (Finite (11 / 2)), JStr ''n''])]"
  have h1: "well_formed ?x" by simp
  have h2: "fix_json ?x = Inr ?y" by code_simp
  have h3: "at_path ?x [Key ''nodes'', Index 0] = Some (JFloat (Finite 5))" by simp
  have h4: "Key ''extras'' \<notin> set [Key ''nodes'', Index 0]" by simp
  from fix_json_scalars [OF h1 h2 h3 h4]
  have "at_path ?y [Key ''nodes'', Index 0] = Some (if (5::rat) \<in> \<int> then JInt \<lfloor>5::rat\<rfloor> else JFloat (Finite 5))"
    by blast
  then have "at_path ?y [Key ''nodes'', Index 0] = Some (JInt 5)" by simp
  with h1 h2 h3 show ?thesis by blast
qed

text \<open>
  The claim C5 as stated fails for a float under \<^verbatim>\<open>extras\<close>, which is not replaced
  (\<^verbatim>\<open>{"extras": 5.0}\<close> stays as it is), and for a NaN, which is not returned:
  \<^verbatim>\<open>int(obj)\<close> raises.
\<close>

theorem fix_json_float_counterexample:
  "fix_json (JDict [(''extras'', JFloat (Finite 5))]) = Inr (JDict [(''extras'', JFloat (Finite 5))])
   \<and> at_path (JDict [(''extras'', JFloat (Finite 5))]) [Key ''extras''] = Some (JFloat (Finite 5))
   \<and> fix_json (JFloat NaN) = Inl ValueError"
  by code_simp

text \<open>
  C6 (amended). In every dict of the tree that does not lie under an \<^verbatim>\<open>extras\<close>
  key, a key whose value is an empty dict or an empty list is removed unless the key
  is \<^verbatim>\<open>KHR_materials_unlit\<close>, the one entry of the allow-list, or \<^verbatim>\<open>extras\<close>;
  under these two keys the empty value is kept. The dict itself is still there, with
  its other kept keys.
\<close>

theorem fix_json_drops_empty_collections:
  assumes "well_formed x" and "fix_json x = Inr y"
    and "at_path x p = Some (JDict kvs)" and "Key ''extras'' \<notin> set p"
    and "map_of kvs key = Some v" and "is_empty_collection v"
  shows "(\<exists>fixed. at_path y p = Some (JDict fixed))
         \<and> at_path y (p @ [Key key])
             = (if key \<in> set allowed_empty_collections \<or> key = ''extras'' then Some v else None)
         \<and> allowed_empty_collections = [''KHR_materials_unlit'']"
proof -
  let ?fixed = "map fix_entry (filter keep_entry kvs)"
  from assms(5) have ne: "\<not> is_empty_collection (JDict kvs)" by auto
  have nn: "JDict kvs \<noteq> JNull" by simp
  from fix_json_at_path [OF assms(1) assms(2) assms(3) ne nn assms(4)]
  obtain s' where s': "fix_json (JDict kvs) = Inr s'" and yp: "at_path y p = Some s'"
    by blast
  from well_formed_at_path [OF assms(1) assms(3)] have d: "distinct (map fst kvs)"
    by simp
  from fix_json_dict_char [OF d s'] have sf: "s' = JDict ?fixed" .
  from assms(6) have fv: "fix_json v = Inr v" and vn: "v \<noteq> JNull"
    by (cases v; simp)+
  have m: "map_of ?fixed key
          = (if key \<in> set allowed_empty_collections \<or> key = ''extras'' then Some v else None)"
    using assms(5) assms(6) fv vn
    by (simp add: map_of_fixed [OF d] keep_entry_def fix_entry_def
        should_include_json_value_def)
  from yp sf have "at_path y (p @ [Key key]) = map_of ?fixed key"
    by (simp add: at_path_append split: option.splits)
  with m yp sf show ?thesis by (simp add: allowed_empty_collections_def)
qed

theorem fix_json_drops_empty_collections_witness:
  "well_formed (JDict [(''materials'', JList [JDict [(''extensions'', JDict []),
       (''KHR_materials_unlit'', JDict []), (''samplers'', JList [])]])])
   \<and> fix_json (JDict [(''materials'', JList [JDict [(''extensions'', JDict []),
       (''KHR_materials_unlit'', JDict []), (''samplers'', JList [])]])])
       = Inr (JDict [(''materials'', JList [JDict [(''KHR_materials_unlit'', JDict [])]])])
   \<and> at_path (JDict [(''materials'', JList [JDict [(''KHR_materials_unlit'', JDict [])]])])
       ([Key ''materials'', Index 0] @ [Key ''samplers'']) = None
   \<and> at_path (JDict [(''materials'', JList [JDict [(''KHR_materials_unlit'', JDict [])]])])
       ([Key ''materials'', Index 0] @ [Key ''KHR_materials_unlit'']) = Some (JDict [])"
proof -
  let ?kvs = "[(''extensions'', JDict []), (''KHR_materials_unlit'', JDict []),
               (''samplers'', JList [])]"
  let ?x = "JDict [(''materials'', JList [JDict ?kvs])]"
  let ?y = "JDict [(''materials'', JList [JDict [(''KHR_materials_unlit'', JDict [])]])]"
  have h1: "well_formed ?x" by simp
  have h2: "fix_json ?x = Inr ?y" by code_simp
  have h3: "at_path ?x [Key ''materials'', Index 0] = Some (JDict ?kvs)" by simp
  have h4: "Key ''extras'' \<notin> set [Key ''materials'', Index 0]" by simp
  have h5: "map_of ?kvs ''samplers'' = Some (JList [])" by simp
  have h6: "is_empty_collection (JList [])" by simp
  have h7: "map_of ?kvs ''KHR_materials_unlit'' = Some (JDict [])" by simp
  have h8: "is_empty_collection (JDict [])" by simp
  from fix_json_drops_empty_collections [OF h1 h2 h3 h4 h5 h6]
  have a: "at_path ?y ([Key ''materials'', Index 0] @ [Key ''samplers'']) = None"
    by (simp add: allowed_empty_collections_def)
  from fix_json_drops_empty_collections [OF h1 h2 h3 h4 h7 h8]
  have b: "at_path ?y ([Key ''materials'', Index 0] @ [Key ''KHR_materials_unlit''])
             = Some (JDict [])"
    by (simp add: allowed_empty_collections_def)
  from h1 h2 a b show ?thesis by blast
qed

text \<open>
  The claim C6 as stated fails for the key \<^verbatim>\<open>extras\<close>, which is not on the
  allow-list and keeps an empty value: \<^verbatim>\<open>{"extras": {}}\<close> stays as it is. It fails
  as well for any key under \<^verbatim>\<open>extras\<close>: \<^verbatim>\<open>{"extras": {"samplers": []}}\<close> stays as
  it is.
\<close>

theorem fix_json_empty_extras_counterexample:
  "is_empty_collection (JDict []) \<and> ''extras'' \<notin> set allowed_empty_collections
   \<and> fix_json (JDict [(''extras'', JDict [])]) = Inr (JDict [(''extras'', JDict [])])
   \<and> is_empty_collection (JList []) \<and> ''samplers'' \<notin> set allowed_empty_collections
   \<and> fix_json (JDict [(''extras'', JDict [(''samplers'', JList [])])])
       = Inr (JDict [(''extras'', JDict [(''samplers'', JList [])])])"
  by code_simp

text \<open>
  C9 (amended). \<^verbatim>\<open>__fix_json\<close> returns exactly on the trees whose floats are all
  finite outside the values of \<^verbatim>\<open>extras\<close> keys that are not \<^verbatim>\<open>None\<close>; so it
  returns when every float of the tree is finite. When it raises, it raises
  \<^verbatim>\<open>ValueError\<close> or \<^verbatim>\<open>OverflowError\<close>; applied to a NaN it raises the first,
  applied to an infinity the second.
\<close>

theorem fix_json_total_on_finite_floats:
  "((\<exists>y. fix_json x = Inr y) = reached_floats_finite x)
   \<and> (all_floats_finite x \<longrightarrow> (\<exists>y. fix_json x = Inr y))
   \<and> (\<forall>e. fix_json x = Inl e \<longrightarrow> e = ValueError \<or> e = OverflowError)
   \<and> fix_json (JFloat NaN) = Inl ValueError
   \<and> fix_json (JFloat PosInf) = Inl OverflowError
   \<and> fix_json (JFloat NegInf) = Inl OverflowError"
  using fix_total_iff(1) [of x] all_finite_reached(1) [of x] fix_error_class(1) [of x]
  by simp

theorem fix_json_total_on_finite_floats_witness:
  "all_floats_finite (JList [JFloat (Finite (3 / 2)), JDict [(''a'', JFloat (Finite 2))]])
   \<and> (\<exists>y. fix_json (JList [JFloat (Finite (3 / 2)), JDict [(''a'', JFloat (Finite 2))]]) = Inr y)"
proof -
  have h: "all_floats_finite (JList [JFloat (Finite (3 / 2)), JDict [(''a'', JFloat (Finite 2))]])"
    by simp
  from fix_json_total_on_finite_floats
         [of "JList [JFloat (Finite (3 / 2)), JDict [(''a'', JFloat (Finite 2))]]"] h
  show ?thesis by blast
qed

text \<open>
  The claim C9 as stated fails for a NaN under \<^verbatim>\<open>extras\<close>: the tree
  \<^verbatim>\<open>{"extras": nan}\<close> holds a float that is not finite, and the pass returns it.
\<close>

theorem fix_json_nan_in_extras_counterexample:
  "\<not> all_floats_finite (JDict [(''extras'', JFloat NaN)])
   \<and> fix_json (JDict [(''extras'', JFloat NaN)]) = Inr (JDict [(''extras'', JFloat NaN)])"
  by code_simp



section \<open>The claims about the export\<close>

text \<open>
  C1 (amended). When \<^verbatim>\<open>save\<close> returns and \<^verbatim>\<open>export_settings['gltf_current_frame']\<close>
  is false when \<^verbatim>\<open>save\<close> reads it for the last time (line 58; the only statement
  after that read is \<^verbatim>\<open>frame_set\<close>, so these are the settings of the final state),
  the timeline position after \<^verbatim>\<open>save\<close> is the position captured at line 38 (after
  the switch to object mode), and the result is \<^verbatim>\<open>{'FINISHED'}\<close>.
\<close>

theorem save_restores_frame:
  assumes "save env w = (Inr r, w')" and "\<not> gltf_current_frame (settings w')"
  shows "frame_current w' = frame_current (snd (enter_object_mode env w)) \<and> r = {''FINISHED''}"
proof -
  from assms(1) obtain u1 w1 where m: "enter_object_mode env w = (Inr u1, w1)"
    and k: "then_do (\<lambda>w. returns (frame_current w) w) (\<lambda>original_frame.
     then_do (run_if (\<lambda>w. \<not> gltf_current_frame (settings w)) (frame_set 0)) (\<lambda>u.
     then_do notify_start (\<lambda>u.
     then_do (\<lambda>w. returns (time_time env w) w) (\<lambda>start_time.
     then_do (for_each (\<lambda>callback. callback) (pre_export_callbacks env)) (\<lambda>u.
     then_do (export env) (\<lambda>(json, buffer).
     then_do (for_each (\<lambda>callback. callback) (post_export_callbacks env)) (\<lambda>u.
     then_do (write_file env json buffer) (\<lambda>u.
     then_do (\<lambda>w. returns (time_time env w) w) (\<lambda>end_time.
     then_do (notify_end env (float_sub env end_time start_time)) (\<lambda>u.
     then_do (run_if (\<lambda>w. \<not> gltf_current_frame (settings w)) (frame_set original_frame)) (\<lambda>u.
     returns {''FINISHED''}))))))))))) w1 = (Inr r, w')"
    unfolding save_def by (erule then_do_InrE)
  from k obtain wh wi elapsed where
    ne: "notify_end env elapsed wh = (Inr (), wi)"
    and rs: "run_if (\<lambda>w. \<not> gltf_current_frame (settings w)) (frame_set (frame_current w1)) wi
               = (Inr (), w')"
    and r: "r = {''FINISHED''}"
    by (auto simp: returns_def elim!: then_do_InrE)
  from rs have "w' = (if \<not> gltf_current_frame (settings wi)
                      then wi\<lparr>frame_current := frame_current w1\<rparr> else wi)"
    by (auto simp: run_if_def frame_set_def split: if_splits)
  with assms(2) m r show ?thesis by (auto split: if_splits)
qed


theorem save_restores_frame_witness:
  "save quiet_host sample_world = (Inr {''FINISHED''}, snd (save quiet_host sample_world))
   \<and> \<not> gltf_current_frame (settings (snd (save quiet_host sample_world)))
   \<and> frame_current (snd (save quiet_host sample_world)) = 7
   \<and> frame_current sample_world = 7"
proof -
  have h1: "save quiet_host sample_world = (Inr {''FINISHED''}, snd (save quiet_host sample_world))"
    by (simp add: run_defs host_defs)
  have h2: "\<not> gltf_current_frame (settings (snd (save quiet_host sample_world)))"
    by (simp add: run_defs host_defs)
  have h3: "frame_current (snd (enter_object_mode quiet_host sample_world)) = 7"
    by (simp add: run_defs host_defs)
  from save_restores_frame [OF h1 h2] h1 h2 h3 show ?thesis
    by (simp add: sample_world_def)
qed

text \<open>
  The claim C1 as stated fails on both exits. A pre-export callback raises while
  \<^verbatim>\<open>gltf_current_frame\<close> is false: the exception reaches the caller with the
  timeline at 0, not at 7. With \<^verbatim>\<open>gltf_current_frame\<close> true, a callback moves the
  timeline to 3: \<^verbatim>\<open>save\<close> returns and the timeline stays at 3. With
  \<^verbatim>\<open>gltf_current_frame\<close> false at entry, a callback sets it to true: \<^verbatim>\<open>save\<close>
  returns and the timeline stays at 0.
\<close>

theorem save_restores_frame_counterexample:
  "frame_current sample_world = 7
   \<and> \<not> gltf_current_frame (settings sample_world)
   \<and> fst (save failing_callback_host sample_world) = Inl callback_error
   \<and> frame_current (snd (save failing_callback_host sample_world)) = 0
   \<and> fst (save moving_callback_host
            (sample_world\<lparr>settings := sample_settings\<lparr>gltf_current_frame := True\<rparr>\<rparr>))
       = Inr {''FINISHED''}
   \<and> frame_current (snd (save moving_callback_host
            (sample_world\<lparr>settings := sample_settings\<lparr>gltf_current_frame := True\<rparr>\<rparr>))) = 3
   \<and> fst (save flipping_callback_host sample_world) = Inr {''FINISHED''}
   \<and> frame_current (snd (save flipping_callback_host sample_world)) = 0"
  by (simp add: run_defs host_defs failing_callback_host_def moving_callback_host_def
      flipping_callback_host_def)

text \<open>
  The path of the post-process that the handler of line 207 covers: once the output
  directory is there and the tool has been started, \<^verbatim>\<open>__postprocess_with_gltfpack\<close>
  returns normally whatever the exit status is, and logs an error when the status is
  not 0; \<^verbatim>\<open>__write_file\<close> then returns normally too. An exception of the launch
  whose class is neither \<^verbatim>\<open>CalledProcessError\<close> nor \<^verbatim>\<open>AssertionError\<close> leaves both.
\<close>

lemma gltfpack_exit_status_not_fatal:
  assumes "save_gltf env json buffer w0 = (Inr u0, w)"
    and "gltf_use_gltfpack (settings w)"
    and "run_if (\<lambda>w'. \<not> path_exists env (gltf_output_file_directory env w) w')
           (makedirs env (gltf_output_file_directory env w)) w = (Inr u, w1)"
    and "run_process env (gltfpack_command env w w1) w1 = (outcome, w2)"
  shows "(\<forall>code. outcome = Exited code \<longrightarrow>
            postprocess_with_gltfpack env w
              = (Inr (), if code = 0 then w2
                         else w2\<lparr>calls := calls w2 @
                           [Print_console ''ERROR'' ''Calling gltfpack was not successful'']\<rparr>)
            \<and> write_file env json buffer w0
              = (Inr (), if code = 0 then w2
                         else w2\<lparr>calls := calls w2 @
                           [Print_console ''ERROR'' ''Calling gltfpack was not successful'']\<rparr>))
         \<and> (\<forall>e. outcome = Launch_failed e \<longrightarrow> exc_cls e \<noteq> CalledProcessError \<longrightarrow>
              exc_cls e \<noteq> AssertionError \<longrightarrow>
              postprocess_with_gltfpack env w = (Inl e, w2)
              \<and> write_file env json buffer w0 = (Inl e, w2))"
proof -
  have pp: "postprocess_with_gltfpack env w
      = (case outcome of
           Exited code \<Rightarrow>
             (Inr (), if code = 0 then w2
                      else w2\<lparr>calls := calls w2 @
                        [Print_console ''ERROR'' ''Calling gltfpack was not successful'']\<rparr>)
         | Launch_failed e \<Rightarrow>
             if exc_cls e = CalledProcessError
             then (Inr (), w2\<lparr>calls := calls w2 @
                        [Print_console ''ERROR'' ''Calling gltfpack was not successful'']\<rparr>)
             else (Inl e, w2))"
    using assms(3) assms(4)
    by (cases outcome)
       (simp_all add: postprocess_with_gltfpack_def then_do_def subprocess_run_check_def
          called_process_error_def print_console_eq)
  have wf: "write_file env json buffer w0
      = (case postprocess_with_gltfpack env w of
           (Inl e, w') \<Rightarrow>
             if exc_cls e = AssertionError then report_assertion e w' else (Inl e, w')
         | (Inr u, w') \<Rightarrow> (Inr (), w'))"
    using assms(1) assms(2)
    by (simp add: write_file_def write_file_body_def then_do_def run_if_def)
  show ?thesis
    by (simp add: wf pp)
qed

lemma gltfpack_exit_status_not_fatal_run:
  "postprocess_with_gltfpack failing_tool_host sample_world
     = (Inr (), sample_world\<lparr>calls :=
          [Print_console ''ERROR'' ''Calling gltfpack was not successful'']\<rparr>)
   \<and> write_file failing_tool_host (JDict []) [] sample_world
     = (Inr (), sample_world\<lparr>calls :=
          [Print_console ''ERROR'' ''Calling gltfpack was not successful'']\<rparr>)
   \<and> fst (save failing_tool_host sample_world) = Inr {''FINISHED''}"
proof -
  have h1: "save_gltf failing_tool_host (JDict []) [] sample_world = (Inr (), sample_world)"
    by (simp add: failing_tool_host_def quiet_host_def returns_def)
  have h2: "gltf_use_gltfpack (settings sample_world)"
    by (simp add: host_defs)
  have h3: "run_if (\<lambda>w'. \<not> path_exists failing_tool_host
                     (gltf_output_file_directory failing_tool_host sample_world) w')
              (makedirs failing_tool_host
                 (gltf_output_file_directory failing_tool_host sample_world)) sample_world
            = (Inr (), sample_world)"
    by (simp add: failing_tool_host_def quiet_host_def run_if_def)
  have h4: "run_process failing_tool_host
              (gltfpack_command failing_tool_host sample_world sample_world) sample_world
            = (Exited 1, sample_world)"
    by (simp add: failing_tool_host_def quiet_host_def)
  have h5: "fst (save failing_tool_host sample_world) = Inr {''FINISHED''}"
    by (simp add: run_defs host_defs failing_tool_host_def called_process_error_def)
  from gltfpack_exit_status_not_fatal [OF h1 h2 h3 h4] h5 show ?thesis
    by (simp add: sample_world_def)
qed

text \<open>
  C4. The claim is that no outcome of the tool makes the export fail. The code does
  not meet it when the binary is missing: \<^verbatim>\<open>subprocess.run\<close> raises an \<^verbatim>\<open>OSError\<close>,
  the handler is for \<^verbatim>\<open>CalledProcessError\<close> only, nothing is logged and the exception
  leaves \<^verbatim>\<open>__postprocess_with_gltfpack\<close>, \<^verbatim>\<open>__write_file\<close> and \<^verbatim>\<open>save\<close>, although the
  file has been written.
\<close>

theorem gltfpack_missing_binary_raises:
  "save_gltf missing_binary_host (JDict []) [] sample_world = (Inr (), sample_world)
   \<and> postprocess_with_gltfpack missing_binary_host sample_world
     = (Inl missing_binary_error, sample_world)
   \<and> write_file missing_binary_host (JDict []) [] sample_world
     = (Inl missing_binary_error, sample_world)
   \<and> fst (save missing_binary_host sample_world) = Inl missing_binary_error"
  by (simp add: run_defs host_defs missing_binary_host_def missing_binary_error_def)

text \<open>
  C7. The argument list handed to the tool is the binary, then
  \<^verbatim>\<open>[-tc] -tq n -si n [-sa] [-slb] -vp n -vt n -vn n -vc n\<close>, then the position flag,
  then \<^verbatim>\<open>[-noq]\<close>, then \<^verbatim>\<open>-i input -o output\<close>; an optional flag is there exactly
  when its option is set, and for \<^verbatim>\<open>Integer\<close>, \<^verbatim>\<open>Normalized\<close> and
  \<^verbatim>\<open>Floating-point\<close> the position flag is \<^verbatim>\<open>-vpi\<close>, \<^verbatim>\<open>-vpn\<close> and \<^verbatim>\<open>-vpf\<close>.
\<close>

theorem gltfpack_command_order:
  assumes "gltf_gltfpack_vpi (settings w1) \<in> {''Integer'', ''Normalized'', ''Floating-point''}"
  shows "gltfpack_command env w w1 =
     [path_join env (gltfpack_path_ui w) ''gltfpack'']
     @ (if gltf_gltfpack_tc (settings w1) then [''-tc''] else [])
     @ [''-tq'', str_int (gltf_gltfpack_tq (settings w1)),
        ''-si'', format_float env (gltf_gltfpack_si (settings w1))]
     @ (if gltf_gltfpack_sa (settings w1) then [''-sa''] else [])
     @ (if gltf_gltfpack_slb (settings w1) then [''-slb''] else [])
     @ [''-vp'', str_int (gltf_gltfpack_vp (settings w1)),
        ''-vt'', str_int (gltf_gltfpack_vt (settings w1)),
        ''-vn'', str_int (gltf_gltfpack_vn (settings w1)),
        ''-vc'', str_int (gltf_gltfpack_vc (settings w1))]
     @ [if gltf_gltfpack_vpi (settings w1) = ''Integer'' then ''-vpi''
        else if gltf_gltfpack_vpi (settings w1) = ''Normalized'' then ''-vpn''
        else ''-vpf'']
     @ (if gltf_gltfpack_noq (settings w1) then [''-noq''] else [])
     @ [''-i'', gltf_filepath (settings w),
        ''-o'', path_join env
                 (path_join env (path_dirname env (gltf_filepath (settings w))) ''gltfpacked'')
                 (fst (path_splitext env (path_basename env (gltf_filepath (settings w))))
                  @ snd (path_splitext env (path_basename env (gltf_filepath (settings w)))))]"
  using assms
  by (auto simp: gltfpack_command_def gltfpack_options_def gltf_output_file_directory_def Let_def)

theorem gltfpack_command_order_witness:
  "gltf_gltfpack_vpi (settings sample_world) \<in> {''Integer'', ''Normalized'', ''Floating-point''}
   \<and> gltfpack_command quiet_host sample_world sample_world =
       [''/opt/gltfpack'', ''-tc'', ''-tq'', ''75'', ''-si'', ''1.0'', ''-vp'', ''14'', ''-vt'', ''12'',
        ''-vn'', ''8'', ''-vc'', ''8'', ''-vpi'', ''-i'', ''/out/scene.glb'',
        ''-o'', ''/out/gltfpacked/scene.glb'']"
proof -
  have h: "gltf_gltfpack_vpi (settings sample_world)
             \<in> {''Integer'', ''Normalized'', ''Floating-point''}"
    by (simp add: host_defs)
  have d: "str_int 75 = ''75''" "str_int 14 = ''14''" "str_int 12 = ''12''" "str_int 8 = ''8''"
    by code_simp+
  from gltfpack_command_order [OF h, of quiet_host sample_world] h d show ?thesis
    by (simp add: host_defs)
qed



text \<open>
  C8. When the body of the \<^verbatim>\<open>try\<close> in \<^verbatim>\<open>__write_file\<close> raises, \<^verbatim>\<open>__write_file\<close>
  raises the same exception. For an \<^verbatim>\<open>AssertionError\<close> it first prints the
  traceback, then one console line per frame with the line number and the statement
  text, then the text of the exception; for any other exception it adds no output. An
  exception raised by \<^verbatim>\<open>save_gltf\<close> is an exception of the body.
\<close>

theorem write_file_reports_assertions_only:
  "(\<forall>e w'. write_file_body env json buffer w = (Inl e, w') \<longrightarrow>
      write_file env json buffer w
        = (Inl e, if exc_cls e = AssertionError
                  then w'\<lparr>calls := calls w' @ assertion_report e\<rparr> else w'))
   \<and> (\<forall>e w'. save_gltf env json buffer w = (Inl e, w') \<longrightarrow>
         write_file_body env json buffer w = (Inl e, w'))"
  by (simp add: write_file_def report_assertion_eq write_file_body_def then_do_def)

theorem write_file_reports_assertions_only_witness:
  "write_file failing_assertion_host (JDict []) [] sample_world
     = (Inl assertion_error,
        sample_world\<lparr>calls :=
          [Print_tb (exc_tb assertion_error),
           Print_console ''ERROR'' ''An error occurred on line 42 in statement assert ok'',
           Print_console ''ERROR'' ''bad chunk'']\<rparr>)
   \<and> write_file failing_storage_host (JDict []) [] sample_world
     = (Inl storage_error, sample_world)"
proof -
  have a: "save_gltf failing_assertion_host (JDict []) [] sample_world
             = (Inl assertion_error, sample_world)"
    by (simp add: failing_assertion_host_def quiet_host_def raise_def)
  have s: "save_gltf failing_storage_host (JDict []) [] sample_world
             = (Inl storage_error, sample_world)"
    by (simp add: failing_storage_host_def quiet_host_def raise_def)
  have d: "str_int 42 = ''42''" by code_simp
  from write_file_reports_assertions_only
         [of failing_assertion_host "JDict []" "[]" sample_world] a
  have ra: "write_file failing_assertion_host (JDict []) [] sample_world
      = (Inl assertion_error,
         if exc_cls assertion_error = AssertionError
         then sample_world\<lparr>calls := calls sample_world @ assertion_report assertion_error\<rparr>
         else sample_world)"
    by blast
  from write_file_reports_assertions_only
         [of failing_storage_host "JDict []" "[]" sample_world] s
  have rs: "write_file failing_storage_host (JDict []) [] sample_world
      = (Inl storage_error,
         if exc_cls storage_error = AssertionError
         then sample_world\<lparr>calls := calls sample_world @ assertion_report storage_error\<rparr>
         else sample_world)"
    by blast
  from ra rs d show ?thesis
    by (simp add: assertion_error_def storage_error_def assertion_report_def sample_world_def)
qed

text \<open>
  C10. When \<^verbatim>\<open>gltf_format\<close> is not \<^verbatim>\<open>GLB\<close>, \<^verbatim>\<open>__create_buffer\<close> calls
  \<^verbatim>\<open>finalize_buffer\<close> (without a buffer name for \<^verbatim>\<open>GLTF_EMBEDDED\<close>, with the binary
  file name otherwise), drops what it returns and returns the empty byte string; when
  \<^verbatim>\<open>gltf_format\<close> is \<^verbatim>\<open>GLB\<close>, it returns what \<^verbatim>\<open>finalize_buffer\<close> returns with
  \<^verbatim>\<open>is_glb=True\<close>. The buffer that \<^verbatim>\<open>__export\<close> returns is the one that
  \<^verbatim>\<open>__create_buffer\<close> returned.
\<close>

theorem create_buffer_empty_unless_glb:
  "(gltf_format (settings w) \<noteq> ''GLB'' \<longrightarrow>
      create_buffer env w
        = (case finalize_buffer env (gltf_filedirectory (settings w))
                  (if gltf_format (settings w) = ''GLTF_EMBEDDED'' then None
                   else Some (gltf_binaryfilename (settings w))) False w of
             (Inl e, w') \<Rightarrow> (Inl e, w')
           | (Inr payload, w') \<Rightarrow> (Inr [], w')))
   \<and> (gltf_format (settings w) = ''GLB'' \<longrightarrow>
        create_buffer env w = finalize_buffer env (gltf_filedirectory (settings w)) None True w)
   \<and> (\<forall>json buffer w'. export env w = (Inr (json, buffer), w') \<longrightarrow>
        (\<exists>wa wb. create_buffer env wa = (Inr buffer, wb)))"
proof -
  have a: "gltf_format (settings w) \<noteq> ''GLB'' \<longrightarrow>
      create_buffer env w
        = (case finalize_buffer env (gltf_filedirectory (settings w))
                  (if gltf_format (settings w) = ''GLTF_EMBEDDED'' then None
                   else Some (gltf_binaryfilename (settings w))) False w of
             (Inl e, w') \<Rightarrow> (Inl e, w')
           | (Inr payload, w') \<Rightarrow> (Inr [], w'))"
    by (auto simp: create_buffer_def then_do_def returns_def split: prod.splits sum.splits)
  have b: "gltf_format (settings w) = ''GLB'' \<longrightarrow>
        create_buffer env w = finalize_buffer env (gltf_filedirectory (settings w)) None True w"
    by (auto simp: create_buffer_def then_do_def returns_def split: prod.splits sum.splits)
  have c: "\<exists>wa wb. create_buffer env wa = (Inr buffer, wb)"
    if "export env w = (Inr (json, buffer), w')" for json buffer w'
    using that unfolding export_def
    by (elim then_do_InrE) (auto simp: returns_def)
  from a b c show ?thesis by blast
qed

theorem create_buffer_empty_unless_glb_witness:
  "gltf_format (settings (sample_world\<lparr>settings := sample_settings\<lparr>gltf_format := ''GLTF_SEPARATE''\<rparr>\<rparr>))
     \<noteq> ''GLB''
   \<and> create_buffer quiet_host
        (sample_world\<lparr>settings := sample_settings\<lparr>gltf_format := ''GLTF_SEPARATE''\<rparr>\<rparr>)
     = (Inr [], sample_world\<lparr>settings := sample_settings\<lparr>gltf_format := ''GLTF_SEPARATE''\<rparr>\<rparr>)
   \<and> create_buffer quiet_host sample_world = (Inr [1, 2, 3, 4], sample_world)"
proof -
  let ?w = "sample_world\<lparr>settings := sample_settings\<lparr>gltf_format := ''GLTF_SEPARATE''\<rparr>\<rparr>"
  have h1: "gltf_format (settings ?w) \<noteq> ''GLB''"
    by (simp add: host_defs)
  have h2: "gltf_format (settings sample_world) = ''GLB''"
    by (simp add: host_defs)
  from create_buffer_empty_unless_glb [of ?w quiet_host] h1
  have r1: "create_buffer quiet_host ?w
        = (case finalize_buffer quiet_host (gltf_filedirectory (settings ?w))
                  (if gltf_format (settings ?w) = ''GLTF_EMBEDDED'' then None
                   else Some (gltf_binaryfilename (settings ?w))) False ?w of
             (Inl e, w') \<Rightarrow> (Inl e, w')
           | (Inr payload, w') \<Rightarrow> (Inr [], w'))"
    by blast
  from create_buffer_empty_unless_glb [of sample_world quiet_host] h2
  have r2: "create_buffer quiet_host sample_world
        = finalize_buffer quiet_host (gltf_filedirectory (settings sample_world)) None True
            sample_world"
    by blast
  from r1 r2 h1 show ?thesis
    by (simp add: quiet_host_def returns_def)
qed

end
